theory Spec2Isabelle
  imports Main "HOL-Library.Sublist"
begin

section \<open>The Haste module loader (src/HasteModuleLoader/HasteModuleLoader.js)\<close>

text \<open>
  A shallow embedding of the class \<open>Loader\<close>. The loader's collaborators
  (the resource map of node-haste, \<open>resolve\<close>, \<open>fs\<close>, \<open>path\<close>, the transformer,
  the environment's evaluator and the mock synthesizer) are not part of the file;
  they are the fields of the record \<open>world\<close>, and every function of the loader takes
  the world as its first argument. The loader's mutable fields are the record
  \<open>state\<close>, passed explicitly. Method names keep the source's spelling without the
  leading underscore.

  A computation that may throw and may not return has a result of type
  \<open>(error + 'a) option\<close>: \<open>None\<close> is "does not return", \<open>Some (Inl e)\<close> is the
  exception \<open>e\<close>, \<open>Some (Inr v)\<close> the value \<open>v\<close>. A method that also changes the
  loader returns the state beside the outcome, also when it throws.
\<close>

subsection \<open>Strings as JavaScript uses them here\<close>

text \<open>\<open>s.indexOf(pat)\<close>: the first position at which \<open>pat\<close> occurs, or \<open>-1\<close>.\<close>

fun indexOf_from :: "nat \<Rightarrow> string \<Rightarrow> string \<Rightarrow> int" where
  "indexOf_from i [] pat = (if pat = [] then int i else - 1)"
| "indexOf_from i (c # cs) pat =
     (if prefix pat (c # cs) then int i else indexOf_from (Suc i) cs pat)"

definition indexOf :: "string \<Rightarrow> string \<Rightarrow> int" where
  "indexOf s pat = indexOf_from 0 s pat"

text \<open>\<open>s.split(sep)\<close> for a separator of one character; the result is never empty.\<close>

fun split :: "char \<Rightarrow> string \<Rightarrow> string list" where
  "split sep [] = [[]]"
| "split sep (c # cs) =
     (if c = sep then [] # split sep cs
      else (case split sep cs of
              [] \<Rightarrow> [[c]]
            | p # ps \<Rightarrow> (c # p) # ps))"

text \<open>\<open>parts.join(sep)\<close>.\<close>

fun join :: "char \<Rightarrow> string list \<Rightarrow> string" where
  "join sep [] = []"
| "join sep [p] = p"
| "join sep (p # q # ps) = p @ sep # join sep (q # ps)"

text \<open>String concatenation writes \<open>null\<close> for an absent path.\<close>

definition str_of_nullable :: "string option \<Rightarrow> string" where
  "str_of_nullable p = (case p of None \<Rightarrow> ''null'' | Some q \<Rightarrow> q)"

text \<open>\<open>IS_PATH_BASED_MODULE_NAME = /^(?:\.\.?\/|\/)/\<close>.\<close>

definition IS_PATH_BASED_MODULE_NAME :: "string \<Rightarrow> bool" where
  "IS_PATH_BASED_MODULE_NAME name =
     (prefix ''./'' name \<or> prefix ''../'' name \<or> prefix ''/'' name)"

subsection \<open>Objects used as dictionaries with an enumeration order\<close>

text \<open>
  \<open>_mappedModuleNames\<close> is an object whose keys are enumerated by \<open>for ... in\<close>.
  Assigning to a key that exists keeps the key's position; a new key goes to the end.
  The enumeration visits the keys that are array indices first, in ascending numeric
  order, then every other key in the order of its creation.
\<close>

fun obj_set :: "(string \<times> 'a) list \<Rightarrow> string \<Rightarrow> 'a \<Rightarrow> (string \<times> 'a) list" where
  "obj_set [] k v = [(k, v)]"
| "obj_set ((k', v') # kvs) k v =
     (if k' = k then (k, v) # kvs else (k', v') # obj_set kvs k v)"

definition digit_val :: "char \<Rightarrow> int" where
  "digit_val c = of_char c - of_char CHR ''0''"

definition is_digit :: "char \<Rightarrow> bool" where
  "is_digit c = (0 \<le> digit_val c \<and> digit_val c \<le> 9)"

definition int_of_digits :: "string \<Rightarrow> int" where
  "int_of_digits k = foldl (\<lambda>n c. 10 * n + digit_val c) 0 k"

definition is_array_index :: "string \<Rightarrow> bool" where
  "is_array_index k =
     (k \<noteq> [] \<and> list_all is_digit k \<and> (k = ''0'' \<or> hd k \<noteq> CHR ''0'')
      \<and> int_of_digits k < 4294967295)"

definition for_in :: "(string \<times> 'a) list \<Rightarrow> (string \<times> 'a) list" where
  "for_in obj =
     sort_key (\<lambda>kv. int_of_digits (fst kv)) (filter (\<lambda>kv. is_array_index (fst kv)) obj)
     @ filter (\<lambda>kv. \<not> is_array_index (fst kv)) obj"

subsection \<open>Resources, errors and the collaborators\<close>

text \<open>
  A resource of the resource map: \<open>id\<close>, \<open>type\<close>, \<open>path\<close>, \<open>requiredModules\<close>, the
  optional method \<open>getModuleIDByOrigin\<close> (a table from a required name to a module
  id), and for a project configuration \<open>data.name\<close> and \<open>data.main\<close>.
\<close>

record resource =
  res_id :: string
  res_type :: string
  res_path :: string
  requiredModules :: "string list"
  getModuleIDByOrigin :: "(string \<times> string) list option"
  data_name :: string
  data_main :: "string option"

datatype error =
    CannotFindModule string string
  | ModuleNotFound string
  | FailedToGetMockMetadata string
  | UnknownModulePath string
  | CouldNotExtractDependencyInformation
  | TransformError string
  | EvaluationError string
  | UserError string
  | FsError string
  | CoverageError string
  | NativeRequireError string
  | TypeError

text \<open>The values a \<open>require\<close> can return and \<open>setMock\<close> can install.\<close>

datatype val =
    Undefined
  | Prim nat
  | ObjRef nat
  | HostModule string
  | JsonValue string

text \<open>
  What the top level of a module does with the arguments the wrapper function passes
  to it: its bound \<open>require\<close> (with \<open>requireActual\<close> and \<open>requireMock\<close>), its
  \<open>exports\<close> and \<open>module\<close>, and the runtime \<open>jest\<close> of \<open>_createRuntimeFor\<close>. The
  code of a module is a list of such statements, run in order; a statement that
  throws ends the module (no statement catches).
\<close>

datatype cmd =
    Require string
  | RequireActual string
  | RequireMock string
  | SetExportsProp string val
  | AssignModuleExports "(string \<times> val) list"
  | JestMock string
  | JestDontMock string
  | JestSetMock string val
  | JestAutoMockOff
  | JestAutoMockOn
  | JestResetModuleRegistry
  | JestGenMockFromModule string
  | ThrowError string

text \<open>
  The collaborators and the configuration, as the loader uses them:
  \<^item> \<open>isCore\<close> and \<open>resolve_sync basedir name\<close> are \<open>resolve.isCore\<close> and \<open>resolve.sync\<close>
    (with the loader's extensions, \<open>isFile\<close> and \<open>NODE_PATH\<close>); \<open>None\<close> is a throw;
  \<^item> \<open>rm_getResource type name\<close>, \<open>rm_getResourceByPath\<close> and
    \<open>rm_getAllResourcesByType\<close> are the methods of the resource map;
  \<^item> \<open>path_delimiter\<close>, \<open>path_dirname\<close>, \<open>path_basename\<close>, \<open>path_extname\<close> and
    \<open>path_join\<close> (of three parts) are those of \<open>path\<close>, and \<open>VENDOR_PATH\<close> the constant;
  \<^item> \<open>fs_existsSync\<close>, \<open>fs_realpathSync\<close> and \<open>fs_readFileSync\<close> are those of \<open>fs\<close>,
    \<open>JSON_parse\<close> is the environment's \<open>JSON.parse\<close> and \<open>nativeRequire\<close> the \<open>require\<close> of
    the host; \<open>None\<close> is a throw;
  \<^item> \<open>unmockedModulePathPatterns\<close>, \<open>moduleNameMapper\<close>, \<open>collectCoverage\<close> and
    \<open>collectCoverageOnlyFrom\<close> are the fields of the configuration, a regular
    expression being the predicate of its \<open>test\<close>. \<open>collectCoverage\<close> is \<open>true\<close>, another
    truthy value or a falsy value: the constructor sets \<open>_CoverageCollector\<close> when it
    is truthy, and \<open>_execModule\<close> compares it with \<open>true\<close>. \<open>collectCoverageOnlyFrom\<close> is
    a value that is not an object, or \<open>null\<close>, or an object, given by its keys, each
    with whether its value is \<open>true\<close>;
  \<^item> \<open>CoverageCollector_new source filename\<close> says whether
    \<open>new this._CoverageCollector(source, filename)\<close> returns (it throws otherwise), and
    \<open>getInstrumentedSource source sink\<close> is the instrumented source of a coverage
    collector made for \<open>source\<close>, \<open>None\<close> when the collector's \<open>getCoverageDataStore\<close>
    or \<open>getInstrumentedSource\<close> throws;
  \<^item> \<open>transform filename\<close> is the transformer and \<open>runSourceText wrapper filename\<close> the
    environment's evaluator, which yields the top-level code of the module as a list
    of statements; \<open>None\<close> is a throw;
  \<^item> \<open>getMetadata\<close> and \<open>generateFromMetadata\<close> are those of the mock synthesizer:
    the metadata of a value (given with the properties it has when it is an object)
    is a list of member names or \<open>null\<close>, and a generated mock is a list of
    properties.
\<close>

datatype truthiness = IsTrue | Truthy | Falsy

datatype onlyFrom = NotAnObject | NullValue | KeysOf "(string \<times> bool) list"

record world =
  isCore :: "string \<Rightarrow> bool"
  resolve_sync :: "string \<Rightarrow> string \<Rightarrow> string option"
  rm_getResource :: "string \<Rightarrow> string \<Rightarrow> resource option"
  rm_getResourceByPath :: "string \<Rightarrow> resource option"
  rm_getAllResourcesByType :: "string \<Rightarrow> resource list"
  path_delimiter :: char
  path_dirname :: "string \<Rightarrow> string"
  path_basename :: "string \<Rightarrow> string"
  path_extname :: "string \<Rightarrow> string"
  path_join :: "string \<Rightarrow> string \<Rightarrow> string \<Rightarrow> string"
  VENDOR_PATH :: string
  fs_existsSync :: "string \<Rightarrow> bool"
  fs_realpathSync :: "string \<Rightarrow> string option"
  fs_readFileSync :: "string \<Rightarrow> string option"
  JSON_parse :: "string \<Rightarrow> val option"
  nativeRequire :: "string \<Rightarrow> val option"
  unmockedModulePathPatterns :: "(string \<Rightarrow> bool) list"
  moduleNameMapper :: "((string \<Rightarrow> bool) \<times> string) list"
  collectCoverage :: truthiness
  collectCoverageOnlyFrom :: onlyFrom
  CoverageCollector_new :: "string \<Rightarrow> string \<Rightarrow> bool"
  getInstrumentedSource :: "string \<Rightarrow> string \<Rightarrow> string option"
  transform :: "string \<Rightarrow> string option"
  runSourceText :: "string \<Rightarrow> string \<Rightarrow> cmd list option"
  getMetadata :: "val \<Rightarrow> (string \<times> val) list option \<Rightarrow> string list option"
  generateFromMetadata :: "string list option \<Rightarrow> (string \<times> val) list"

text \<open>
  The constructor's derived fields. \<open>_unmockListRegExps\<close> is the list of the
  compiled patterns (a regular expression is the predicate of its \<open>test\<close>), and
  \<open>_mappedModuleNames\<close> the object \<open>canonical name \<rightarrow> pattern\<close> filled by
  \<open>moduleNameMapper.forEach(map => this._mappedModuleNames[map[1]] = new RegExp(map[0]))\<close>.
\<close>

definition unmockListRegExps :: "world \<Rightarrow> (string \<Rightarrow> bool) list" where
  "unmockListRegExps w = unmockedModulePathPatterns w"

definition mappedModuleNames :: "world \<Rightarrow> (string \<times> (string \<Rightarrow> bool)) list" where
  "mappedModuleNames w =
     foldl (\<lambda>obj m. obj_set obj (snd m) (fst m)) [] (moduleNameMapper w)"

subsection \<open>The resolver\<close>

text \<open>\<open>_resolveStubModuleName\<close>: the first key of \<open>_mappedModuleNames\<close>, in enumeration
  order, whose pattern matches; \<open>None\<close> is \<open>undefined\<close>.\<close>

fun first_match :: "(string \<times> (string \<Rightarrow> bool)) list \<Rightarrow> string \<Rightarrow> string option" where
  "first_match [] moduleName = None"
| "first_match ((mappedModuleName, regex) # rest) moduleName =
     (if regex moduleName then Some mappedModuleName else first_match rest moduleName)"

definition resolveStubModuleName :: "world \<Rightarrow> string \<Rightarrow> string option" where
  "resolveStubModuleName w moduleName = first_match (for_in (mappedModuleNames w)) moduleName"

definition getResource :: "world \<Rightarrow> string \<Rightarrow> string \<Rightarrow> resource option" where
  "getResource w resourceType resourceName =
     (let resource = rm_getResource w resourceType resourceName;
          resource =
            (if resource = None \<and> resourceType = ''JS''
                \<and> CHR ''/'' \<in> set resourceName \<and> \<not> suffix ''.js'' resourceName
             then rm_getResource w resourceType (resourceName @ ''.js'')
             else resource)
      in if resource = None \<and> resourceType = ''JSMock''
         then (case resolveStubModuleName w resourceName of
                 None \<Rightarrow> resource
               | Some moduleName \<Rightarrow>
                   if moduleName \<noteq> [] then rm_getResource w ''JS'' moduleName else resource)
         else resource)"

text \<open>
  A plain object (\<open>{}\<close>) read with \<open>obj[k]\<close> and no \<open>hasOwnProperty\<close>: a name that is
  no key of the object itself is found in \<open>Object.prototype\<close> when it names one of
  the properties there, and the value found is a function, or the prototype object
  for \<open>__proto__\<close>.
\<close>

definition Object_prototype :: "string list" where
  "Object_prototype =
     [''constructor'', ''hasOwnProperty'', ''isPrototypeOf'', ''propertyIsEnumerable'',
      ''toLocaleString'', ''toString'', ''valueOf'', ''__proto__'', ''__defineGetter__'',
      ''__defineSetter__'', ''__lookupGetter__'', ''__lookupSetter__'']"

datatype 'a lookup = Own 'a | Inherited | Absent

definition plain_lookup :: "(string \<rightharpoonup> 'a) \<Rightarrow> string \<Rightarrow> 'a lookup" where
  "plain_lookup obj k =
     (case obj k of
        Some v \<Rightarrow> Own v
      | None \<Rightarrow> if k \<in> set Object_prototype then Inherited else Absent)"

text \<open>
  \<open>_nodeModuleNameToPath\<close> ends in the call
  \<open>this._moduleNameToPath(resource.path, './' + subModulePath)\<close>. Its body is
  \<open>nodeModuleNameToPath_step\<close>, which returns the outcome (\<open>Inl\<close>) or the arguments
  of that last call (\<open>Inr\<close>). The memo \<open>_nodeModuleProjectConfigNameToResource\<close> is
  the plain object filled from the project configurations, a later resource with the
  same name replacing an earlier one; the assignment to the key \<open>__proto__\<close> adds no
  key (that it replaces the prototype of the memo is left out). The memo is read
  without \<open>hasOwnProperty\<close>: an inherited value is truthy and has no \<open>path\<close>, so
  \<open>path.dirname(resource.path)\<close> throws a \<open>TypeError\<close>.
\<close>

definition nodeModuleProjectConfigNameToResource :: "world \<Rightarrow> string \<Rightarrow> resource option" where
  "nodeModuleProjectConfigNameToResource w =
     foldl (\<lambda>m res. if data_name res = ''__proto__'' then m else m(data_name res \<mapsto> res))
       Map.empty (rm_getAllResourcesByType w ''ProjectConfiguration'')"

definition cannotFind :: "string \<Rightarrow> string \<Rightarrow> error" where
  "cannotFind moduleName currPath =
     CannotFindModule moduleName (if currPath = [] then ''.'' else currPath)"

definition nodeModuleNameToPath_step ::
  "world \<Rightarrow> string \<Rightarrow> string \<Rightarrow> (error + string) + (string \<times> string)" where
  "nodeModuleNameToPath_step w currPath moduleName =
     (let basedir = path_dirname w currPath;
          projectPathParts = split CHR ''/'' moduleName;
          moduleProjectPart =
            (if CHR ''/'' \<in> set moduleName then hd projectPathParts else moduleName);
          subModulePath =
            (if CHR ''/'' \<in> set moduleName then Some (join CHR ''/'' (tl projectPathParts))
             else None)
      in case resolve_sync w basedir moduleName of
           Some p \<Rightarrow> Inl (Inr p)
         | None \<Rightarrow>
            (let resolveError = cannotFind moduleName currPath
             in case plain_lookup (nodeModuleProjectConfigNameToResource w) moduleProjectPart of
                  Absent \<Rightarrow> Inl (Inl resolveError)
                | Inherited \<Rightarrow> Inl (Inl TypeError)
                | Own resource \<Rightarrow>
                    if indexOf (path_dirname w (res_path resource)) basedir > 0
                    then Inl (Inl resolveError)
                    else Inr (res_path resource,
                              ''./'' @ (case subModulePath of
                                          Some sub \<Rightarrow> sub
                                        | None \<Rightarrow>
                                           (case data_main resource of
                                              Some m \<Rightarrow> m
                                            | None \<Rightarrow> ''index.js'')))))"

partial_function (option) moduleNameToPath ::
  "world \<Rightarrow> string \<Rightarrow> string \<Rightarrow> (error + string) option" where
  "moduleNameToPath w currPath moduleName =
     (case getResource w ''JS'' moduleName of
        Some resource \<Rightarrow> Some (Inr (res_path resource))
      | None \<Rightarrow>
         (case nodeModuleNameToPath_step w currPath moduleName of
            Inl outcome \<Rightarrow> Some outcome
          | Inr (currPath', moduleName') \<Rightarrow> moduleNameToPath w currPath' moduleName'))"

declare moduleNameToPath.simps [code]

definition nodeModuleNameToPath :: "world \<Rightarrow> string \<Rightarrow> string \<Rightarrow> (error + string) option" where
  "nodeModuleNameToPath w currPath moduleName =
     (case nodeModuleNameToPath_step w currPath moduleName of
        Inl outcome \<Rightarrow> Some outcome
      | Inr (currPath', moduleName') \<Rightarrow> moduleNameToPath w currPath' moduleName')"

text \<open>
  \<open>_getNormalizedModuleID\<close>. The test \<open>absolutePath === undefined\<close> never holds for
  a path the resolver returned, so its \<open>throw\<close> has no branch of its own here.
\<close>

definition moduleID_string :: "world \<Rightarrow> string \<Rightarrow> string option \<Rightarrow> string option \<Rightarrow> string" where
  "moduleID_string w moduleType realAbsPath mockAbsPath =
     moduleType @ path_delimiter w # str_of_nullable realAbsPath
       @ path_delimiter w # str_of_nullable mockAbsPath"

definition normalizedModuleID_user ::
  "world \<Rightarrow> string \<Rightarrow> string option \<Rightarrow> string option \<Rightarrow> string" where
  "normalizedModuleID_user w moduleName realAbsPath mockAbsPath =
     (let realAbsPath =
            (if realAbsPath = None
             then (case getResource w ''JS'' moduleName of
                     Some moduleResource \<Rightarrow> Some (res_path moduleResource)
                   | None \<Rightarrow> realAbsPath)
             else realAbsPath);
          mockAbsPath =
            (if mockAbsPath = None
             then (case getResource w ''JSMock'' moduleName of
                     Some mockResource \<Rightarrow> Some (res_path mockResource)
                   | None \<Rightarrow> mockAbsPath)
             else mockAbsPath)
      in moduleID_string w ''user'' realAbsPath mockAbsPath)"

definition getNormalizedModuleID :: "world \<Rightarrow> string \<Rightarrow> string \<Rightarrow> (error + string) option" where
  "getNormalizedModuleID w currPath moduleName =
     (if isCore w moduleName
      then Some (Inr (moduleID_string w ''node'' (Some moduleName) None))
      else if IS_PATH_BASED_MODULE_NAME moduleName
              \<or> (getResource w ''JS'' moduleName = None
                  \<and> getResource w ''JSMock'' moduleName = None)
      then (case moduleNameToPath w currPath moduleName of
              None \<Rightarrow> None
            | Some (Inl e) \<Rightarrow> Some (Inl e)
            | Some (Inr absolutePath) \<Rightarrow>
               (case rm_getResourceByPath w absolutePath of
                  Some resource \<Rightarrow>
                    Some (Inr (normalizedModuleID_user w (res_id resource)
                      (if res_type resource = ''JS'' then Some absolutePath else None)
                      (if res_type resource \<noteq> ''JS'' \<and> res_type resource = ''JSMock''
                       then Some absolutePath else None)))
                | None \<Rightarrow> Some (Inr (normalizedModuleID_user w moduleName None None))))
      else Some (Inr (normalizedModuleID_user w moduleName None None)))"

text \<open>\<open>moduleID.split(path.delimiter)[1]\<close>; \<open>None\<close> is \<open>undefined\<close>.\<close>

definition getRealPathFromNormalizedModuleID :: "world \<Rightarrow> string \<Rightarrow> string option" where
  "getRealPathFromNormalizedModuleID w moduleID =
     (case split (path_delimiter w) moduleID of
        _ # realPath # _ \<Rightarrow> Some realPath
      | _ \<Rightarrow> None)"

text \<open>
  \<open>_getDependencyPathsFromResource\<close>: the loop over \<open>resource.requiredModules\<close>.
  A required module whose id cannot be computed is skipped (\<open>catch (e) { continue; }\<close>).
\<close>

definition originOf :: "resource \<Rightarrow> string \<Rightarrow> string" where
  "originOf resource requiredModule =
     (case getModuleIDByOrigin resource of
        None \<Rightarrow> requiredModule
      | Some tab \<Rightarrow>
         (case map_of tab requiredModule of
            None \<Rightarrow> requiredModule
          | Some i \<Rightarrow> if i = [] then requiredModule else i))"

fun dependencyPaths_loop ::
  "world \<Rightarrow> resource \<Rightarrow> string list \<Rightarrow> string option list option" where
  "dependencyPaths_loop w resource [] = Some []"
| "dependencyPaths_loop w resource (requiredModule # rest) =
     (case getNormalizedModuleID w (res_path resource) (originOf resource requiredModule) of
        None \<Rightarrow> None
      | Some (Inl e) \<Rightarrow> dependencyPaths_loop w resource rest
      | Some (Inr moduleID) \<Rightarrow>
         (case dependencyPaths_loop w resource rest of
            None \<Rightarrow> None
          | Some dependencyPaths \<Rightarrow>
              Some (getRealPathFromNormalizedModuleID w moduleID # dependencyPaths)))"

definition getDependencyPathsFromResource ::
  "world \<Rightarrow> resource \<Rightarrow> string option list option" where
  "getDependencyPathsFromResource w resource =
     dependencyPaths_loop w resource (requiredModules resource)"

definition getDependenciesFromPath ::
  "world \<Rightarrow> string \<Rightarrow> (error + string option list) option" where
  "getDependenciesFromPath w modulePath =
     (case rm_getResourceByPath w modulePath of
        None \<Rightarrow> Some (Inl (UnknownModulePath modulePath))
      | Some resource \<Rightarrow>
         if res_type resource = ''ProjectConfiguration'' \<or> res_type resource = ''Resource''
         then Some (Inl CouldNotExtractDependencyInformation)
         else map_option Inr (getDependencyPathsFromResource w resource))"

text \<open>
  A required name with no real path of its own: a platform built-in (whose name does
  not contain the delimiter), or a logical name known to the resource map by a manual
  mock alone.
\<close>

definition standalone :: "world \<Rightarrow> string \<Rightarrow> bool" where
  "standalone w m \<longleftrightarrow>
     (if isCore w m then path_delimiter w \<notin> set m
      else \<not> IS_PATH_BASED_MODULE_NAME m \<and> getResource w ''JS'' m = None
           \<and> getResource w ''JSMock'' m \<noteq> None)"

subsection \<open>The loader's state\<close>

text \<open>
  A property of the environment's global object: a primitive, a plain object, a plain
  function, or an object or function whose \<open>_isMockFunction\<close> is set, with the calls
  it has recorded. The hook \<open>mockClearTimers\<close> is kept beside the properties:
  whether it is registered, and how many times it has been invoked.
\<close>

datatype gval = GPrimitive | GObject | GFunction | GMockFunction "nat list"

record jsglobal =
  props :: "(string \<times> gval) list"
  mockClearTimers :: bool
  timersCleared :: nat

text \<open>
  A module object \<open>{__filename, exports, parent, require}\<close>. Module objects and the
  objects that \<open>exports\<close> refers to live in two stores, because the registry, the
  executing module and its requirers share them by reference. \<open>parent\<close> holds the
  \<open>id\<close> of the parent object and \<open>require\<close> the path the bound require was made for.
\<close>

record moduleObj =
  mo_filename :: string
  mo_exports :: val
  mo_parent :: "string option"
  mo_require :: "string option"

text \<open>
  The fields of \<open>Loader\<close>, \<open>this._environment.global\<close> (\<open>None\<close> once the environment
  is disposed), and the two stores with the next unused address. The last three
  fields are history variables that no method reads: the number of the current pair
  of registries (each pair of fresh registries has a number of its own), the next
  unused number, and the log of the calls of \<open>_execModule\<close>, each with its caller,
  the number of the registries it was made under and the path executed.
\<close>

datatype caller = ByRequireModule | ByRequireMock

record state =
  coverageCollectors :: "string \<rightharpoonup> string"
  currentlyExecutingModulePath :: string
  explicitShouldMock :: "string \<rightharpoonup> bool"
  explicitlySetMocks :: "string \<rightharpoonup> val"
  isCurrentlyExecutingManualMock :: "string option"
  mockMetaDataCache :: "string \<rightharpoonup> string list option"
  shouldAutoMock :: bool
  configShouldMockModuleNames :: "string \<rightharpoonup> bool"
  mockRegistry :: "string \<rightharpoonup> val"
  moduleRegistry :: "string \<rightharpoonup> nat"
  environment_global :: "jsglobal option"
  moduleObjs :: "nat \<Rightarrow> moduleObj"
  objects :: "nat \<Rightarrow> (string \<times> val) list"
  nextAddress :: nat
  generation :: nat
  nextGeneration :: nat
  executed :: "(caller \<times> nat \<times> string) list"

subsection \<open>The mock policy\<close>

text \<open>\<open>_shouldMock\<close>.\<close>

definition shouldMock ::
  "world \<Rightarrow> state \<Rightarrow> string \<Rightarrow> string \<Rightarrow> ((error + bool) \<times> state) option" where
  "shouldMock w s currPath moduleName =
     (case getNormalizedModuleID w currPath moduleName of
        None \<Rightarrow> None
      | Some (Inl e) \<Rightarrow> Some (Inl e, s)
      | Some (Inr moduleID) \<Rightarrow>
         (case explicitShouldMock s moduleID of
            Some b \<Rightarrow> Some (Inr b, s)
          | None \<Rightarrow>
             if isCore w moduleName then Some (Inr False, s)
             else if shouldAutoMock s then
               (case configShouldMockModuleNames s moduleName of
                  Some b \<Rightarrow> Some (Inr b, s)
                | None \<Rightarrow>
                   if length (unmockListRegExps w) > 0 then
                     (let s1 = s\<lparr>configShouldMockModuleNames :=
                                   (configShouldMockModuleNames s)(moduleName \<mapsto> True)\<rparr>;
                          manualMockResource = getResource w ''JSMock'' moduleName
                      in case moduleNameToPath w currPath moduleName of
                           None \<Rightarrow> None
                         | Some (Inl e) \<Rightarrow>
                             if manualMockResource \<noteq> None then Some (Inr True, s1)
                             else Some (Inl e, s1)
                         | Some (Inr modulePath) \<Rightarrow>
                             if indexOf modulePath (VENDOR_PATH w) = 0 then Some (Inr False, s1)
                             else
                               (case fs_realpathSync w modulePath of
                                  None \<Rightarrow> Some (Inl (FsError modulePath), s1)
                                | Some realPath \<Rightarrow>
                                   if list_ex (\<lambda>unmockRegExp.
                                        unmockRegExp modulePath \<or> unmockRegExp realPath)
                                        (unmockListRegExps w)
                                   then Some (Inr False,
                                          s1\<lparr>configShouldMockModuleNames :=
                                            (configShouldMockModuleNames s1)(moduleName \<mapsto> False)\<rparr>)
                                   else Some (Inr True, s1)))
                   else Some (Inr True, s))
             else Some (Inr False, s)))"

subsection \<open>The registries' reset and the runtime's policy methods\<close>

definition mockClear :: "gval \<Rightarrow> gval" where
  "mockClear globalMock =
     (case globalMock of GMockFunction calls \<Rightarrow> GMockFunction [] | v \<Rightarrow> v)"

definition clearGlobal :: "jsglobal \<Rightarrow> jsglobal" where
  "clearGlobal envGlobal =
     (let g = envGlobal\<lparr>props := map (\<lambda>kv. (fst kv, mockClear (snd kv))) (props envGlobal)\<rparr>
      in if mockClearTimers g then g\<lparr>timersCleared := Suc (timersCleared g)\<rparr> else g)"

definition resetModuleRegistry :: "state \<Rightarrow> state" where
  "resetModuleRegistry s =
     s\<lparr>mockRegistry := Map.empty,
       moduleRegistry := Map.empty,
       environment_global := map_option clearGlobal (environment_global s),
       generation := nextGeneration s,
       nextGeneration := Suc (nextGeneration s)\<rparr>"

text \<open>The methods \<open>mock\<close>, \<open>dontMock\<close>, \<open>setMock\<close>, \<open>autoMockOff\<close> and \<open>autoMockOn\<close> of the
  runtime that \<open>_createRuntimeFor(currPath)\<close> builds.\<close>

definition setExplicitShouldMock ::
  "world \<Rightarrow> state \<Rightarrow> string \<Rightarrow> string \<Rightarrow> bool \<Rightarrow> ((error + unit) \<times> state) option" where
  "setExplicitShouldMock w s currPath moduleName b =
     (case getNormalizedModuleID w currPath moduleName of
        None \<Rightarrow> None
      | Some (Inl e) \<Rightarrow> Some (Inl e, s)
      | Some (Inr moduleID) \<Rightarrow>
          Some (Inr (), s\<lparr>explicitShouldMock := (explicitShouldMock s)(moduleID \<mapsto> b)\<rparr>))"

definition jest_dontMock ::
  "world \<Rightarrow> state \<Rightarrow> string \<Rightarrow> string \<Rightarrow> ((error + unit) \<times> state) option" where
  "jest_dontMock w s currPath moduleName = setExplicitShouldMock w s currPath moduleName False"

definition jest_mock ::
  "world \<Rightarrow> state \<Rightarrow> string \<Rightarrow> string \<Rightarrow> ((error + unit) \<times> state) option" where
  "jest_mock w s currPath moduleName = setExplicitShouldMock w s currPath moduleName True"

definition jest_setMock ::
  "world \<Rightarrow> state \<Rightarrow> string \<Rightarrow> string \<Rightarrow> val \<Rightarrow> ((error + unit) \<times> state) option" where
  "jest_setMock w s currPath moduleName moduleExports =
     (case getNormalizedModuleID w currPath moduleName of
        None \<Rightarrow> None
      | Some (Inl e) \<Rightarrow> Some (Inl e, s)
      | Some (Inr moduleID) \<Rightarrow>
          Some (Inr (), s\<lparr>explicitShouldMock := (explicitShouldMock s)(moduleID \<mapsto> True),
                          explicitlySetMocks := (explicitlySetMocks s)(moduleID \<mapsto> moduleExports)\<rparr>))"

definition jest_autoMockOff :: "state \<Rightarrow> state" where
  "jest_autoMockOff s = s\<lparr>shouldAutoMock := False\<rparr>"

definition jest_autoMockOn :: "state \<Rightarrow> state" where
  "jest_autoMockOn s = s\<lparr>shouldAutoMock := True\<rparr>"

subsection \<open>Requiring and executing modules\<close>

text \<open>
  \<open>requireModuleOrMock\<close>, \<open>requireModule\<close>, \<open>requireMock\<close> and \<open>_generateMock\<close> call each
  other through the modules they execute. Each body below takes the four methods it
  may call as the record \<open>L\<close>; \<open>loader n\<close> ties the knot with \<open>n\<close> levels of such
  calls, and a call at level \<open>0\<close> does not return.
\<close>

type_synonym 'a outcome = "((error + 'a) \<times> state) option"

record loader_ops =
  requireModuleOrMock_op :: "state \<Rightarrow> string \<Rightarrow> string \<Rightarrow> val outcome"
  requireModule_op :: "state \<Rightarrow> string \<Rightarrow> string \<Rightarrow> val outcome"
  requireMock_op :: "state \<Rightarrow> string \<Rightarrow> string \<Rightarrow> val outcome"
  generateMock_op :: "state \<Rightarrow> string \<Rightarrow> string \<Rightarrow> val outcome"

text \<open>The object literal \<open>{__filename: modulePath, exports: {}}\<close>: a new exports object
  and a new module object that refers to it.\<close>

definition newModuleObj :: "state \<Rightarrow> string \<Rightarrow> nat \<times> state" where
  "newModuleObj s modulePath =
     (let a = nextAddress s; m = Suc a
      in (m, s\<lparr>objects := (objects s)(a := []),
                moduleObjs := (moduleObjs s)(m :=
                  \<lparr>mo_filename = modulePath, mo_exports = ObjRef a,
                   mo_parent = None, mo_require = None\<rparr>),
                nextAddress := Suc m\<rparr>))"

definition newObject :: "state \<Rightarrow> (string \<times> val) list \<Rightarrow> nat \<times> state" where
  "newObject s ps =
     (let a = nextAddress s
      in (a, s\<lparr>objects := (objects s)(a := ps), nextAddress := Suc a\<rparr>))"

definition contents :: "state \<Rightarrow> val \<Rightarrow> (string \<times> val) list option" where
  "contents s v = (case v of ObjRef a \<Rightarrow> Some (objects s a) | _ \<Rightarrow> None)"

definition discard :: "val outcome \<Rightarrow> unit outcome" where
  "discard r =
     (case r of
        None \<Rightarrow> None
      | Some (Inl e, s) \<Rightarrow> Some (Inl e, s)
      | Some (Inr v, s) \<Rightarrow> Some (Inr (), s))"

text \<open>\<open>constructBoundRequire(modulePath)\<close>: the bound require with its \<open>resolve\<close>,
  \<open>requireMock\<close> and \<open>requireActual\<close>.\<close>

record boundRequire =
  moduleRequire :: "state \<Rightarrow> string \<Rightarrow> val outcome"
  resolve_bound :: "string \<Rightarrow> (error + string) option"
  requireMock_bound :: "state \<Rightarrow> string \<Rightarrow> val outcome"
  requireActual :: "state \<Rightarrow> string \<Rightarrow> val outcome"

definition constructBoundRequire :: "loader_ops \<Rightarrow> world \<Rightarrow> string \<Rightarrow> boundRequire" where
  "constructBoundRequire L w modulePath =
     \<lparr>moduleRequire = (\<lambda>s moduleName. requireModuleOrMock_op L s modulePath moduleName),
      resolve_bound = (\<lambda>moduleName.
        case moduleNameToPath w modulePath moduleName of
          None \<Rightarrow> None
        | Some (Inl e) \<Rightarrow> Some (Inl e)
        | Some (Inr ret) \<Rightarrow>
            if ret = [] then Some (Inl (ModuleNotFound moduleName)) else Some (Inr ret)),
      requireMock_bound = (\<lambda>s moduleName. requireMock_op L s modulePath moduleName),
      requireActual = (\<lambda>s moduleName. requireModule_op L s modulePath moduleName)\<rparr>"

text \<open>The assignments \<open>exports.k = v\<close> (to the exports object at address \<open>a\<close>) and
  \<open>module.exports = {...}\<close> (a new object).\<close>

definition setProp :: "state \<Rightarrow> nat \<Rightarrow> string \<Rightarrow> val \<Rightarrow> state" where
  "setProp s a k v = s\<lparr>objects := (objects s)(a := obj_set (objects s a) k v)\<rparr>"

definition setExports :: "state \<Rightarrow> nat \<Rightarrow> val \<Rightarrow> state" where
  "setExports s m v = s\<lparr>moduleObjs := (moduleObjs s)(m := (moduleObjs s m)\<lparr>mo_exports := v\<rparr>)\<rparr>"

definition assignExports :: "state \<Rightarrow> nat \<Rightarrow> (string \<times> val) list \<Rightarrow> state" where
  "assignExports s m ps = (let (a, s1) = newObject s ps in setExports s1 m (ObjRef a))"

text \<open>One statement of a module's top level, run with the wrapper function's arguments:
  the module object \<open>m\<close>, the object \<open>exports\<close> and the file name that the bound
  require and the runtime were made for.\<close>

definition exec_cmd ::
  "loader_ops \<Rightarrow> world \<Rightarrow> nat \<Rightarrow> val \<Rightarrow> string \<Rightarrow> state \<Rightarrow> cmd \<Rightarrow> unit outcome" where
  "exec_cmd L w m exports filename s c =
     (case c of
        Require moduleName \<Rightarrow>
          discard (moduleRequire (constructBoundRequire L w filename) s moduleName)
      | RequireActual moduleName \<Rightarrow>
          discard (requireActual (constructBoundRequire L w filename) s moduleName)
      | RequireMock moduleName \<Rightarrow>
          discard (requireMock_bound (constructBoundRequire L w filename) s moduleName)
      | SetExportsProp k v \<Rightarrow>
          (case exports of
             ObjRef a \<Rightarrow> Some (Inr (), setProp s a k v)
           | _ \<Rightarrow> Some (Inl TypeError, s))
      | AssignModuleExports ps \<Rightarrow> Some (Inr (), assignExports s m ps)
      | JestMock moduleName \<Rightarrow> jest_mock w s filename moduleName
      | JestDontMock moduleName \<Rightarrow> jest_dontMock w s filename moduleName
      | JestSetMock moduleName moduleExports \<Rightarrow>
          jest_setMock w s filename moduleName moduleExports
      | JestAutoMockOff \<Rightarrow> Some (Inr (), jest_autoMockOff s)
      | JestAutoMockOn \<Rightarrow> Some (Inr (), jest_autoMockOn s)
      | JestResetModuleRegistry \<Rightarrow> Some (Inr (), resetModuleRegistry s)
      | JestGenMockFromModule moduleName \<Rightarrow>
          discard (generateMock_op L s (currentlyExecutingModulePath s) moduleName)
      | ThrowError msg \<Rightarrow> Some (Inl (UserError msg), s))"

fun exec_cmds ::
  "loader_ops \<Rightarrow> world \<Rightarrow> nat \<Rightarrow> val \<Rightarrow> string \<Rightarrow> state \<Rightarrow> cmd list \<Rightarrow> unit outcome" where
  "exec_cmds L w m exports filename s [] = Some (Inr (), s)"
| "exec_cmds L w m exports filename s (c # cs) =
     (case exec_cmd L w m exports filename s c of
        None \<Rightarrow> None
      | Some (Inl e, s') \<Rightarrow> Some (Inl e, s')
      | Some (Inr u, s') \<Rightarrow> exec_cmds L w m exports filename s' cs)"

text \<open>\<open>_execModule(moduleObj)\<close>, the module object given by its address.\<close>

text \<open>
  The test \<open>shouldCollectCoverage\<close>. \<open>typeof null\<close> is \<open>'object'\<close>, and \<open>Object.keys(null)\<close>
  throws a \<open>TypeError\<close>.
\<close>

definition shouldCollectCoverage :: "world \<Rightarrow> string \<Rightarrow> error + bool" where
  "shouldCollectCoverage w filename =
     (case collectCoverageOnlyFrom w of
        NullValue \<Rightarrow> Inl TypeError
      | NotAnObject \<Rightarrow> Inr (collectCoverage w = IsTrue)
      | KeysOf onlyCollectFrom \<Rightarrow>
         (let hasOnlyCollectFrom = (length onlyCollectFrom \<noteq> 0)
          in Inr ((collectCoverage w = IsTrue \<and> \<not> hasOnlyCollectFrom)
                  \<or> (hasOnlyCollectFrom \<and> map_of onlyCollectFrom filename = Some True))))"

definition wrapper_text :: "string \<Rightarrow> string" where
  "wrapper_text moduleContent =
     ''({ '' @ [CHR 0x22] @ ''Object.<anonymous>'' @ [CHR 0x22]
     @ '': function(module, exports, require, __dirname, __filename, global, jest, ____JEST_COVERAGE_DATA____) {''
     @ moduleContent @ [CHR 0x0A] @ ''}});''"

text \<open>
  The parts of \<open>_execModule\<close> that change the loader: the coverage collector of the
  file (created on first use; the source to run becomes its instrumented source),
  the entry into the module (the two "currently executing" fields, and the module
  object's \<open>parent\<close> and \<open>require\<close>) and the exit that restores the two fields.
  \<open>newCollector\<close> is \<open>new this._CoverageCollector(moduleContent, filename)\<close> and the
  assignment of the collector to \<open>_coverageCollectors[filename]\<close>; the field
  \<open>_CoverageCollector\<close> is \<open>undefined\<close> when \<open>config.collectCoverage\<close> is falsy, and \<open>new\<close>
  of it throws a \<open>TypeError\<close>. \<open>collectCoverageFor\<close> yields the source to run, or the
  exception.
\<close>

definition newCollector :: "world \<Rightarrow> state \<Rightarrow> string \<Rightarrow> string \<Rightarrow> (error + unit) \<times> state" where
  "newCollector w s filename moduleContent =
     (if collectCoverage w = Falsy then (Inl TypeError, s)
      else if CoverageCollector_new w moduleContent filename
      then (Inr (), s\<lparr>coverageCollectors := (coverageCollectors s)(filename \<mapsto> moduleContent)\<rparr>)
      else (Inl (CoverageError filename), s))"

definition collectCoverageFor ::
  "world \<Rightarrow> state \<Rightarrow> string \<Rightarrow> string \<Rightarrow> (error + string) \<times> state" where
  "collectCoverageFor w s filename moduleContent =
     (case shouldCollectCoverage w filename of
        Inl e \<Rightarrow> (Inl e, s)
      | Inr False \<Rightarrow> (Inr moduleContent, s)
      | Inr True \<Rightarrow>
         (case (if coverageCollectors s filename = None
                then newCollector w s filename moduleContent else (Inr (), s)) of
            (Inl e, s1) \<Rightarrow> (Inl e, s1)
          | (Inr u, s1) \<Rightarrow>
             (case coverageCollectors s1 filename of
                None \<Rightarrow> (Inl TypeError, s1)
              | Some collected \<Rightarrow>
                 (case getInstrumentedSource w collected ''____JEST_COVERAGE_DATA____'' of
                    None \<Rightarrow> (Inl (CoverageError filename), s1)
                  | Some instrumented \<Rightarrow> (Inr instrumented, s1)))))"

definition enterModule :: "state \<Rightarrow> nat \<Rightarrow> string \<Rightarrow> state" where
  "enterModule s m filename =
     s\<lparr>currentlyExecutingModulePath := filename,
       isCurrentlyExecutingManualMock := Some filename,
       moduleObjs := (moduleObjs s)(m :=
         (moduleObjs s m)\<lparr>mo_parent := Some ''mockParent'', mo_require := Some filename\<rparr>)\<rparr>"

definition leaveModule :: "state \<Rightarrow> string \<Rightarrow> string option \<Rightarrow> state" where
  "leaveModule s lastExecutingModulePath origCurrExecutingManualMock =
     s\<lparr>isCurrentlyExecutingManualMock := origCurrExecutingManualMock,
       currentlyExecutingModulePath := lastExecutingModulePath\<rparr>"

definition execModule :: "loader_ops \<Rightarrow> world \<Rightarrow> state \<Rightarrow> nat \<Rightarrow> unit outcome" where
  "execModule L w s m =
     (if environment_global s = None then Some (Inr (), s)
      else
        (let filename = mo_filename (moduleObjs s m)
         in case transform w filename of
              None \<Rightarrow> Some (Inl (TransformError filename), s)
            | Some moduleContent \<Rightarrow>
               (case collectCoverageFor w s filename moduleContent of
                  (Inl e, s1) \<Rightarrow> Some (Inl e, s1)
                | (Inr moduleContent, s1) \<Rightarrow>
                   (let lastExecutingModulePath = currentlyExecutingModulePath s1;
                        origCurrExecutingManualMock = isCurrentlyExecutingManualMock s1;
                        s2 = enterModule s1 m filename
                    in case runSourceText w (wrapper_text moduleContent) filename of
                         None \<Rightarrow> Some (Inl (EvaluationError filename), s2)
                       | Some wrapperFunc \<Rightarrow>
                          (case exec_cmds L w m (mo_exports (moduleObjs s2 m)) filename s2
                                  wrapperFunc of
                             None \<Rightarrow> None
                           | Some (Inl e, s3) \<Rightarrow> Some (Inl e, s3)
                           | Some (Inr u, s3) \<Rightarrow>
                               Some (Inr (),
                                 leaveModule s3 lastExecutingModulePath
                                   origCurrExecutingManualMock))))))"

text \<open>The history of \<open>_execModule\<close> calls: one more entry, under the current registries.\<close>

definition logExecution :: "caller \<Rightarrow> state \<Rightarrow> string \<Rightarrow> state" where
  "logExecution c s modulePath =
     s\<lparr>executed := executed s @ [(c, generation s, modulePath)]\<rparr>"

text \<open>
  \<open>_generateMock(currPath, moduleName)\<close>. \<open>isolateRegistries\<close> is the replacement of
  both registries by empty ones, \<open>restoreRegistries orig\<close> puts back the registries
  that \<open>orig\<close> held.
\<close>

definition isolateRegistries :: "state \<Rightarrow> state" where
  "isolateRegistries s =
     s\<lparr>mockRegistry := Map.empty,
       moduleRegistry := Map.empty,
       generation := nextGeneration s,
       nextGeneration := Suc (nextGeneration s)\<rparr>"

definition restoreRegistries :: "state \<Rightarrow> state \<Rightarrow> state" where
  "restoreRegistries orig s =
     s\<lparr>mockRegistry := mockRegistry orig,
       moduleRegistry := moduleRegistry orig,
       generation := generation orig\<rparr>"

definition setMockMetaData :: "state \<Rightarrow> string \<Rightarrow> string list option \<Rightarrow> state" where
  "setMockMetaData s modulePath md =
     s\<lparr>mockMetaDataCache := (mockMetaDataCache s)(modulePath \<mapsto> md)\<rparr>"

definition generateFromCache :: "world \<Rightarrow> state \<Rightarrow> string \<Rightarrow> val outcome" where
  "generateFromCache w s modulePath =
     (let (a, s1) = newObject s
            (generateFromMetadata w (case mockMetaDataCache s modulePath of
                                       None \<Rightarrow> None | Some md \<Rightarrow> md))
      in Some (Inr (ObjRef a), s1))"

definition generateMock_body ::
  "loader_ops \<Rightarrow> world \<Rightarrow> state \<Rightarrow> string \<Rightarrow> string \<Rightarrow> val outcome" where
  "generateMock_body L w s currPath moduleName =
     (case moduleNameToPath w currPath moduleName of
        None \<Rightarrow> None
      | Some (Inl e) \<Rightarrow> Some (Inl e, s)
      | Some (Inr modulePath) \<Rightarrow>
         if mockMetaDataCache s modulePath = None then
           (let s0 = setMockMetaData s modulePath
                       (getMetadata w (ObjRef (nextAddress s)) (Some []));
                s1 = isolateRegistries s0
            in case requireModule_op L s1 currPath moduleName of
                 None \<Rightarrow> None
               | Some (Inl e, s2) \<Rightarrow> Some (Inl e, s2)
               | Some (Inr moduleExports, s2) \<Rightarrow>
                  (let s3 = restoreRegistries s0 s2
                   in case getMetadata w moduleExports (contents s3 moduleExports) of
                        None \<Rightarrow> Some (Inl (FailedToGetMockMetadata modulePath), s3)
                      | Some mockMetadata \<Rightarrow>
                          generateFromCache w
                            (setMockMetaData s3 modulePath (Some mockMetadata)) modulePath))
         else generateFromCache w s modulePath)"

text \<open>
  \<open>requireMock(currPath, moduleName)\<close>. \<open>mockPathFor\<close> is the choice of the file to
  load: the manual mock of the resource map, or the \<open>__mocks__\<close> sibling of the real
  file, or the real file (to generate a mock from); the flag says whether a manual
  mock was found.
\<close>

definition mockPathFor ::
  "world \<Rightarrow> string \<Rightarrow> string \<Rightarrow> (error + bool \<times> string) option" where
  "mockPathFor w currPath moduleName =
     (case getResource w ''JSMock'' moduleName of
        Some manualMockResource \<Rightarrow> Some (Inr (True, res_path manualMockResource))
      | None \<Rightarrow>
         (case moduleNameToPath w currPath moduleName of
            None \<Rightarrow> None
          | Some (Inl e) \<Rightarrow> Some (Inl e)
          | Some (Inr modulePath) \<Rightarrow>
             (let potentialManualMock =
                    path_join w (path_dirname w modulePath) ''__mocks__''
                      (path_basename w modulePath)
              in if fs_existsSync w potentialManualMock
                 then Some (Inr (True, potentialManualMock))
                 else Some (Inr (False, modulePath)))))"

definition setMockRegistry :: "state \<Rightarrow> string \<Rightarrow> val \<Rightarrow> state" where
  "setMockRegistry s modulePath v = s\<lparr>mockRegistry := (mockRegistry s)(modulePath \<mapsto> v)\<rparr>"

definition requireMock_body ::
  "loader_ops \<Rightarrow> world \<Rightarrow> state \<Rightarrow> string \<Rightarrow> string \<Rightarrow> val outcome" where
  "requireMock_body L w s currPath moduleName =
     (case getNormalizedModuleID w currPath moduleName of
        None \<Rightarrow> None
      | Some (Inl e) \<Rightarrow> Some (Inl e, s)
      | Some (Inr moduleID) \<Rightarrow>
         (case explicitlySetMocks s moduleID of
            Some v \<Rightarrow> Some (Inr v, s)
          | None \<Rightarrow>
             (case mockPathFor w currPath moduleName of
                None \<Rightarrow> None
              | Some (Inl e) \<Rightarrow> Some (Inl e, s)
              | Some (Inr (manualMockResource, modulePath)) \<Rightarrow>
                 (case mockRegistry s modulePath of
                    Some v \<Rightarrow> Some (Inr v, s)
                  | None \<Rightarrow>
                     if manualMockResource then
                       (let (m, s1) = newModuleObj s modulePath
                        in case execModule L w (logExecution ByRequireMock s1 modulePath) m of
                             None \<Rightarrow> None
                           | Some (Inl e, s3) \<Rightarrow> Some (Inl e, s3)
                           | Some (Inr u, s3) \<Rightarrow>
                               Some (Inr (mo_exports (moduleObjs s3 m)),
                                 setMockRegistry s3 modulePath (mo_exports (moduleObjs s3 m))))
                     else
                       (case generateMock_op L s currPath moduleName of
                          None \<Rightarrow> None
                        | Some (Inl e, s3) \<Rightarrow> Some (Inl e, s3)
                        | Some (Inr v, s3) \<Rightarrow>
                            Some (Inr v, setMockRegistry s3 modulePath v))))))"

text \<open>
  \<open>requireModule(currPath, moduleName)\<close>. \<open>requireModule_path\<close> is the part that
  chooses what to load (up to the test of \<open>VENDOR_PATH\<close>): the module that the host's
  \<open>require\<close> returns for a built-in or a path under the vendor directory (\<open>Inl\<close>), or
  the path to look up in the registry (\<open>Inr\<close>). \<open>registerModule\<close> is the pre-allocated
  module object and its entry in the registry.
\<close>

definition hostRequire :: "world \<Rightarrow> string \<Rightarrow> (error + (val + string)) option" where
  "hostRequire w name =
     (case nativeRequire w name of
        None \<Rightarrow> Some (Inl (NativeRequireError name))
      | Some v \<Rightarrow> Some (Inr (Inl v)))"

definition requireModule_path ::
  "world \<Rightarrow> state \<Rightarrow> string \<Rightarrow> string \<Rightarrow> (error + (val + string)) option" where
  "requireModule_path w s currPath moduleName =
     (case getNormalizedModuleID w currPath moduleName of
        None \<Rightarrow> None
      | Some (Inl e) \<Rightarrow> Some (Inl e)
      | Some (Inr moduleID) \<Rightarrow>
         (let moduleResource = getResource w ''JS'' moduleName;
              manualMockResource = getResource w ''JSMock'' moduleName;
              modulePath =
                (case manualMockResource of
                   None \<Rightarrow> None
                 | Some mock \<Rightarrow>
                     if moduleResource = None
                        \<and> Some (res_path mock) \<noteq> isCurrentlyExecutingManualMock s
                        \<and> explicitShouldMock s moduleID \<noteq> Some False
                     then Some (res_path mock) else None)
          in if isCore w moduleName then hostRequire w moduleName
             else
               (case (case modulePath of
                        Some p \<Rightarrow> if p = [] then moduleNameToPath w currPath moduleName
                                  else Some (Inr p)
                      | None \<Rightarrow> moduleNameToPath w currPath moduleName) of
                  None \<Rightarrow> None
                | Some (Inl e) \<Rightarrow> Some (Inl e)
                | Some (Inr modulePath) \<Rightarrow>
                    if indexOf modulePath (VENDOR_PATH w) = 0
                    then hostRequire w modulePath
                    else if modulePath = []
                    then Some (Inl (CannotFindModule moduleName currPath))
                    else Some (Inr (Inr modulePath)))))"

definition registerModule :: "state \<Rightarrow> string \<Rightarrow> nat \<times> state" where
  "registerModule s modulePath =
     (let (m, s1) = newModuleObj s modulePath
      in (m, s1\<lparr>moduleRegistry := (moduleRegistry s1)(modulePath \<mapsto> m)\<rparr>))"

definition requireModule_body ::
  "loader_ops \<Rightarrow> world \<Rightarrow> state \<Rightarrow> string \<Rightarrow> string \<Rightarrow> val outcome" where
  "requireModule_body L w s currPath moduleName =
     (case requireModule_path w s currPath moduleName of
        None \<Rightarrow> None
      | Some (Inl e) \<Rightarrow> Some (Inl e, s)
      | Some (Inr (Inl host)) \<Rightarrow> Some (Inr host, s)
      | Some (Inr (Inr modulePath)) \<Rightarrow>
         (case moduleRegistry s modulePath of
            Some m \<Rightarrow> Some (Inr (mo_exports (moduleObjs s m)), s)
          | None \<Rightarrow>
             (let (m, s2) = registerModule s modulePath
              in if path_extname w modulePath = ''.json'' then
                   (if environment_global s2 = None then Some (Inl TypeError, s2)
                    else case fs_readFileSync w modulePath of
                           None \<Rightarrow> Some (Inl (FsError modulePath), s2)
                         | Some text \<Rightarrow>
                            (case JSON_parse w text of
                               None \<Rightarrow> Some (Inl (EvaluationError modulePath), s2)
                             | Some v \<Rightarrow> Some (Inr v, setExports s2 m v)))
                 else if path_extname w modulePath = ''.node'' then
                   (case nativeRequire w modulePath of
                      None \<Rightarrow> Some (Inl (NativeRequireError modulePath), s2)
                    | Some v \<Rightarrow> Some (Inr v, setExports s2 m v))
                 else
                   (case execModule L w (logExecution ByRequireModule s2 modulePath) m of
                      None \<Rightarrow> None
                    | Some (Inl e, s3) \<Rightarrow> Some (Inl e, s3)
                    | Some (Inr u, s3) \<Rightarrow> Some (Inr (mo_exports (moduleObjs s3 m)), s3)))))"

text \<open>\<open>requireModuleOrMock(currPath, moduleName)\<close>.\<close>

definition requireModuleOrMock_body ::
  "loader_ops \<Rightarrow> world \<Rightarrow> state \<Rightarrow> string \<Rightarrow> string \<Rightarrow> val outcome" where
  "requireModuleOrMock_body L w s currPath moduleName =
     (case shouldMock w s currPath moduleName of
        None \<Rightarrow> None
      | Some (Inl e, s1) \<Rightarrow> Some (Inl e, s1)
      | Some (Inr b, s1) \<Rightarrow>
          if b then requireMock_op L s1 currPath moduleName
          else requireModule_op L s1 currPath moduleName)"

primrec loader :: "nat \<Rightarrow> world \<Rightarrow> loader_ops" where
  "loader 0 w =
     \<lparr>requireModuleOrMock_op = (\<lambda>s currPath moduleName. None),
      requireModule_op = (\<lambda>s currPath moduleName. None),
      requireMock_op = (\<lambda>s currPath moduleName. None),
      generateMock_op = (\<lambda>s currPath moduleName. None)\<rparr>"
| "loader (Suc n) w =
     \<lparr>requireModuleOrMock_op = requireModuleOrMock_body (loader n w) w,
      requireModule_op = requireModule_body (loader n w) w,
      requireMock_op = requireMock_body (loader n w) w,
      generateMock_op = generateMock_body (loader n w) w\<rparr>"

definition requireModuleOrMock :: "nat \<Rightarrow> world \<Rightarrow> state \<Rightarrow> string \<Rightarrow> string \<Rightarrow> val outcome" where
  "requireModuleOrMock n w = requireModuleOrMock_op (loader n w)"

definition requireModule :: "nat \<Rightarrow> world \<Rightarrow> state \<Rightarrow> string \<Rightarrow> string \<Rightarrow> val outcome" where
  "requireModule n w = requireModule_op (loader n w)"

definition requireMock :: "nat \<Rightarrow> world \<Rightarrow> state \<Rightarrow> string \<Rightarrow> string \<Rightarrow> val outcome" where
  "requireMock n w = requireMock_op (loader n w)"

definition generateMock :: "nat \<Rightarrow> world \<Rightarrow> state \<Rightarrow> string \<Rightarrow> string \<Rightarrow> val outcome" where
  "generateMock n w = generateMock_op (loader n w)"

section \<open>Relations between the states before and after a call\<close>

text \<open>
  A relation \<open>G s threw s'\<close> between the state before a call, whether the call threw,
  and the state after it is \<open>stepwise\<close> when it holds of a call that changes nothing,
  composes with a preceding step that returned, and holds of every elementary step
  of the methods above; for the steps that come in pairs around a nested call
  (entering and leaving a module, isolating and restoring the registries) it carries
  over from the nested call to the whole. \<open>ops_sat G L\<close> says that the four methods
  in \<open>L\<close> satisfy \<open>G\<close>.
\<close>

definition stepwise :: "(state \<Rightarrow> bool \<Rightarrow> state \<Rightarrow> bool) \<Rightarrow> bool" where
  "stepwise G \<longleftrightarrow>
     (\<forall>s b. G s b s)
     \<and> (\<forall>s s1 s2 b. G s False s1 \<longrightarrow> G s1 b s2 \<longrightarrow> G s b s2)
     \<and> (\<forall>w s c n r s'. shouldMock w s c n = Some (r, s') \<longrightarrow> G s (isl r) s')
     \<and> (\<forall>w s c n v r s'. setExplicitShouldMock w s c n v = Some (r, s') \<longrightarrow> G s (isl r) s')
     \<and> (\<forall>w s c n v r s'. jest_setMock w s c n v = Some (r, s') \<longrightarrow> G s (isl r) s')
     \<and> (\<forall>s. G s False (jest_autoMockOff s))
     \<and> (\<forall>s. G s False (jest_autoMockOn s))
     \<and> (\<forall>s. G s False (resetModuleRegistry s))
     \<and> (\<forall>s a k v. G s False (setProp s a k v))
     \<and> (\<forall>s m ps. G s False (assignExports s m ps))
     \<and> (\<forall>w s f c b. G s b (snd (collectCoverageFor w s f c)))
     \<and> (\<forall>s m f. G s True (enterModule s m f))
     \<and> (\<forall>s m f s3. G (enterModule s m f) True s3 \<longrightarrow> G s True s3)
     \<and> (\<forall>s m f s3. G (enterModule s m f) False s3 \<longrightarrow>
           G s False (leaveModule s3 (currentlyExecutingModulePath s)
                        (isCurrentlyExecutingManualMock s)))
     \<and> (\<forall>s p b. moduleRegistry s p = None \<longrightarrow> G s b (snd (registerModule s p)))
     \<and> (\<forall>s m v. G s False (setExports s m v))
     \<and> (\<forall>s p. moduleRegistry s p = None \<longrightarrow>
           G s False (logExecution ByRequireModule (snd (registerModule s p)) p))
     \<and> (\<forall>s p. G s False (logExecution ByRequireMock (snd (newModuleObj s p)) p))
     \<and> (\<forall>s p v. G s False (setMockRegistry s p v))
     \<and> (\<forall>s ps. G s False (snd (newObject s ps)))
     \<and> (\<forall>s p md. G s False (setMockMetaData s p md))
     \<and> (\<forall>s s2. G (isolateRegistries s) True s2 \<longrightarrow> G s True s2)
     \<and> (\<forall>s s2 b. G (isolateRegistries s) False s2 \<longrightarrow> G s b (restoreRegistries s s2))"

definition ops_sat :: "(state \<Rightarrow> bool \<Rightarrow> state \<Rightarrow> bool) \<Rightarrow> loader_ops \<Rightarrow> bool" where
  "ops_sat G L \<longleftrightarrow>
     (\<forall>s currPath moduleName r s'.
        (requireModuleOrMock_op L s currPath moduleName = Some (r, s') \<longrightarrow> G s (isl r) s')
        \<and> (requireModule_op L s currPath moduleName = Some (r, s') \<longrightarrow> G s (isl r) s')
        \<and> (requireMock_op L s currPath moduleName = Some (r, s') \<longrightarrow> G s (isl r) s')
        \<and> (generateMock_op L s currPath moduleName = Some (r, s') \<longrightarrow> G s (isl r) s'))"

text \<open>
  The executions that \<open>requireModule\<close> asked for, each with the number of the
  registries it ran under. \<open>registry_inv\<close>: no path was executed twice under the same
  registries, and every path executed under the current registries is registered.
  \<open>registry_frame\<close>: what a call may add to the log and do to the numbers.
\<close>

definition real_log :: "state \<Rightarrow> (nat \<times> string) list" where
  "real_log s = map snd (filter (\<lambda>e. fst e = ByRequireModule) (executed s))"

definition registry_inv :: "state \<Rightarrow> bool" where
  "registry_inv s \<longleftrightarrow>
     distinct (real_log s)
     \<and> (\<forall>p. (generation s, p) \<in> set (real_log s) \<longrightarrow> moduleRegistry s p \<noteq> None)
     \<and> (\<forall>e \<in> set (real_log s). fst e < nextGeneration s)
     \<and> generation s < nextGeneration s"

definition registry_frame :: "state \<Rightarrow> state \<Rightarrow> bool" where
  "registry_frame s s' \<longleftrightarrow>
     set (real_log s) \<subseteq> set (real_log s')
     \<and> (\<forall>e \<in> set (real_log s'). e \<in> set (real_log s)
            \<or> fst e = generation s \<or> nextGeneration s \<le> fst e)
     \<and> nextGeneration s \<le> nextGeneration s'
     \<and> (generation s' = generation s \<or> nextGeneration s \<le> generation s')"

definition keeps :: "state \<Rightarrow> bool \<Rightarrow> state \<Rightarrow> bool" where
  "keeps s threw s' \<longleftrightarrow> registry_frame s s' \<and> (registry_inv s \<longrightarrow> registry_inv s')"

definition same_reg :: "state \<Rightarrow> state \<Rightarrow> bool" where
  "same_reg s s' \<longleftrightarrow>
     real_log s' = real_log s \<and> generation s' = generation s
     \<and> nextGeneration s' = nextGeneration s \<and> moduleRegistry s' = moduleRegistry s"

text \<open>
  The two fields that \<open>_execModule\<close> saves and restores. \<open>executing f s\<close>: both name
  the file \<open>f\<close>. \<open>restores\<close>: a call that returns leaves both fields as they were; a
  call that throws leaves them as they were or naming a file.
\<close>

definition executing :: "string \<Rightarrow> state \<Rightarrow> bool" where
  "executing f s \<longleftrightarrow>
     currentlyExecutingModulePath s = f \<and> isCurrentlyExecutingManualMock s = Some f"

definition same_executing :: "state \<Rightarrow> state \<Rightarrow> bool" where
  "same_executing s s' \<longleftrightarrow>
     currentlyExecutingModulePath s' = currentlyExecutingModulePath s
     \<and> isCurrentlyExecutingManualMock s' = isCurrentlyExecutingManualMock s"

definition restores :: "state \<Rightarrow> bool \<Rightarrow> state \<Rightarrow> bool" where
  "restores s threw s' \<longleftrightarrow>
     (if threw then same_executing s s' \<or> (\<exists>f. executing f s') else same_executing s s')"


text \<open>
  What \<open>requireModule\<close> loads once a path is chosen (the tests of the vendor path and
  of an empty path), and the choice it makes when it resolves the real path.
\<close>

definition loadChoice :: "world \<Rightarrow> string \<Rightarrow> string \<Rightarrow> string \<Rightarrow> (error + (val + string)) option" where
  "loadChoice w currPath moduleName modulePath =
     (if indexOf modulePath (VENDOR_PATH w) = 0 then hostRequire w modulePath
      else if modulePath = [] then Some (Inl (CannotFindModule moduleName currPath))
      else Some (Inr (Inr modulePath)))"

definition realChoice :: "world \<Rightarrow> string \<Rightarrow> string \<Rightarrow> (error + (val + string)) option" where
  "realChoice w currPath moduleName =
     (case moduleNameToPath w currPath moduleName of
        None \<Rightarrow> None
      | Some (Inl e) \<Rightarrow> Some (Inl e)
      | Some (Inr modulePath) \<Rightarrow> loadChoice w currPath moduleName modulePath)"

text \<open>What an observer sees of a call: its outcome, the log of executions, the two
  "currently executing" fields, and the properties of the exports it returned.\<close>

definition outcome_of :: "'a outcome \<Rightarrow> (error + 'a) option" where
  "outcome_of r = map_option fst r"

definition log_of :: "'a outcome \<Rightarrow> (caller \<times> nat \<times> string) list" where
  "log_of r = (case r of None \<Rightarrow> [] | Some (x, s) \<Rightarrow> executed s)"

definition executing_of :: "'a outcome \<Rightarrow> (string \<times> string option) option" where
  "executing_of r =
     (case r of
        None \<Rightarrow> None
      | Some (x, s) \<Rightarrow> Some (currentlyExecutingModulePath s, isCurrentlyExecutingManualMock s))"

definition exports_of :: "val outcome \<Rightarrow> (string \<times> val) list option" where
  "exports_of r = (case r of Some (Inr v, s) \<Rightarrow> contents s v | _ \<Rightarrow> None)"

definition holds_after :: "'a outcome \<Rightarrow> (state \<Rightarrow> bool) \<Rightarrow> bool" where
  "holds_after r P = (case r of None \<Rightarrow> False | Some (x, s) \<Rightarrow> P s)"

section \<open>Example projects\<close>

text \<open>
  Concrete collaborators on which the functions above are evaluated: a resource map
  given by the list of its resources, a file system given by the paths that
  \<open>resolve.sync\<close> finds from a directory, and the top-level code of each source file.
\<close>

definition ex_dirname :: "string \<Rightarrow> string" where
  "ex_dirname p = join CHR ''/'' (butlast (split CHR ''/'' p))"

definition ex_basename :: "string \<Rightarrow> string" where
  "ex_basename p = last (split CHR ''/'' p)"

definition ex_extname :: "string \<Rightarrow> string" where
  "ex_extname p =
     (case rev (split CHR ''.'' (ex_basename p)) of
        e # _ # _ \<Rightarrow> CHR ''.'' # e
      | _ \<Rightarrow> [])"

definition ex_resource :: "string \<Rightarrow> string \<Rightarrow> string \<Rightarrow> string list \<Rightarrow> resource" where
  "ex_resource i t p reqs =
     \<lparr>res_id = i, res_type = t, res_path = p, requiredModules = reqs,
      getModuleIDByOrigin = None, data_name = [], data_main = None\<rparr>"

definition ex_world ::
  "resource list \<Rightarrow> ((string \<times> string) \<times> string) list \<Rightarrow> (string \<times> cmd list) list \<Rightarrow> world" where
  "ex_world resources files sources =
     \<lparr>isCore = (\<lambda>n. n \<in> set [''fs'', ''path'']),
      resolve_sync = (\<lambda>basedir n. map_of files (basedir, n)),
      rm_getResource = (\<lambda>t n. find (\<lambda>r. res_type r = t \<and> res_id r = n) resources),
      rm_getResourceByPath = (\<lambda>p. find (\<lambda>r. res_path r = p) resources),
      rm_getAllResourcesByType = (\<lambda>t. filter (\<lambda>r. res_type r = t) resources),
      path_delimiter = CHR '':'',
      path_dirname = ex_dirname,
      path_basename = ex_basename,
      path_extname = ex_extname,
      path_join = (\<lambda>a b c. a @ ''/'' @ b @ ''/'' @ c),
      VENDOR_PATH = ''/jest/vendor'',
      fs_existsSync = (\<lambda>p. p \<in> set (map fst sources)),
      fs_realpathSync = (\<lambda>p. Some p),
      fs_readFileSync = (\<lambda>p. if p \<in> set (map fst sources) then Some p else None),
      JSON_parse = (\<lambda>text. Some (JsonValue text)),
      nativeRequire = (\<lambda>p. Some (HostModule p)),
      unmockedModulePathPatterns = [],
      moduleNameMapper = [],
      collectCoverage = Falsy,
      collectCoverageOnlyFrom = NotAnObject,
      CoverageCollector_new = (\<lambda>content filename. True),
      getInstrumentedSource = (\<lambda>content sink. Some content),
      transform = (\<lambda>p. if p \<in> set (map fst sources) then Some p else None),
      runSourceText = (\<lambda>wrapper filename. map_of sources filename),
      getMetadata = (\<lambda>v obj. case v of Undefined \<Rightarrow> None
                       | _ \<Rightarrow> Some (case obj of Some ps \<Rightarrow> map fst ps | None \<Rightarrow> [])),
      generateFromMetadata = (\<lambda>md. case md of None \<Rightarrow> []
                                | Some ks \<Rightarrow> map (\<lambda>k. (k, Undefined)) ks)\<rparr>"

text \<open>The loader as its constructor leaves it, with an empty global object.\<close>

definition ex_state :: state where
  "ex_state =
     \<lparr>coverageCollectors = Map.empty, currentlyExecutingModulePath = [],
      explicitShouldMock = Map.empty, explicitlySetMocks = Map.empty,
      isCurrentlyExecutingManualMock = None, mockMetaDataCache = Map.empty,
      shouldAutoMock = True, configShouldMockModuleNames = Map.empty,
      mockRegistry = Map.empty, moduleRegistry = Map.empty,
      environment_global = Some \<lparr>props = [], mockClearTimers = False, timersCleared = 0\<rparr>,
      moduleObjs = (\<lambda>a. \<lparr>mo_filename = [], mo_exports = Undefined,
                          mo_parent = None, mo_require = None\<rparr>),
      objects = (\<lambda>a. []),
      nextAddress = 0, generation = 0, nextGeneration = 1, executed = []\<rparr>"

text \<open>Patterns: the paths under \<open>/keep\<close>, the names that start with \<open>alias\<close>, the
  names that end in \<open>.css\<close>.\<close>

definition keep_pattern :: "string \<Rightarrow> bool" where
  "keep_pattern p = prefix ''/keep'' p"

definition alias_pattern :: "string \<Rightarrow> bool" where
  "alias_pattern n = prefix ''alias'' n"

definition css_pattern :: "string \<Rightarrow> bool" where
  "css_pattern n = suffix ''.css'' n"

text \<open>A project whose module \<open>jasmine\<close> lies under the vendor directory, with one
  unmock pattern configured.\<close>

definition vendor_world :: world where
  "vendor_world =
     (ex_world [ex_resource ''jasmine'' ''JS'' ''/jest/vendor/jasmine.js'' []] [] [])
       \<lparr>unmockedModulePathPatterns := [keep_pattern]\<rparr>"

text \<open>A project with one unmock pattern, a module \<open>K\<close> that matches it and a module
  \<open>A\<close> that does not; and a loader with one entry in each registry.\<close>

definition keep_world :: world where
  "keep_world =
     (ex_world [ex_resource ''K'' ''JS'' ''/keep/K.js'' [],
                ex_resource ''A'' ''JS'' ''/p/A.js'' []] [] [])
       \<lparr>unmockedModulePathPatterns := [keep_pattern]\<rparr>"

definition loaded_state :: state where
  "loaded_state =
     ex_state\<lparr>moduleRegistry := [''/keep/K.js'' \<mapsto> 1], mockRegistry := [''/p/A.js'' \<mapsto> ObjRef 2]\<rparr>"

text \<open>A project with the modules \<open>alias\<close> and \<open>Canonical\<close> and a mapping from the names
  that start with \<open>alias\<close> to \<open>Canonical\<close>.\<close>

definition mapper_world :: world where
  "mapper_world =
     (ex_world [ex_resource ''alias'' ''JS'' ''/p/alias.js'' [],
                ex_resource ''Canonical'' ''JS'' ''/p/canonical.js'' []] [] [])
       \<lparr>moduleNameMapper := [(alias_pattern, ''Canonical'')]\<rparr>"

text \<open>A project that maps every name ending in \<open>.css\<close> to the module \<open>CSSStub\<close>; the
  module \<open>Page\<close> requires \<open>./missing.css\<close>, and no file \<open>/p/missing.css\<close> exists.\<close>

definition css_world :: world where
  "css_world =
     (ex_world [ex_resource ''CSSStub'' ''JS'' ''/p/CSSStub.js'' [],
                ex_resource ''Page'' ''JS'' ''/p/Page.js'' [''./missing.css'', ''CSSStub'']] [] [])
       \<lparr>moduleNameMapper := [(css_pattern, ''CSSStub'')],
         unmockedModulePathPatterns := [keep_pattern]\<rparr>"

text \<open>A project whose module \<open>X\<close> has a manual mock and no real file; the module
  \<open>Test\<close> asks for the mock of \<open>X\<close> and then for the actual \<open>X\<close>.\<close>

definition mockonly_world :: world where
  "mockonly_world =
     ex_world [ex_resource ''X'' ''JSMock'' ''/p/__mocks__/X.js'' [],
               ex_resource ''App'' ''JS'' ''/p/App.js'' [''X'', ''fs''],
               ex_resource ''Test'' ''JS'' ''/p/Test.js'' [''X'']]
       []
       [(''/p/__mocks__/X.js'', [SetExportsProp ''mocked'' (Prim 1)]),
        (''/p/Test.js'', [RequireMock ''X'', RequireActual ''X''])]"

text \<open>A project whose module \<open>App\<close> requires a module known by a manual mock alone, a
  module with a source file, and a built-in.\<close>

definition mixed_world :: world where
  "mixed_world =
     ex_world [ex_resource ''X'' ''JSMock'' ''/p/__mocks__/X.js'' [],
               ex_resource ''Lib'' ''JS'' ''/p/Lib.js'' [],
               ex_resource ''App'' ''JS'' ''/p/App.js'' [''X'', ''Lib'', ''fs'']]
       [] []"

text \<open>The same project with one unmock pattern.\<close>

definition mockonly_unmock_world :: world where
  "mockonly_unmock_world = mockonly_world\<lparr>unmockedModulePathPatterns := [keep_pattern]\<rparr>"


text \<open>Two modules that require each other, and one whose top level throws.\<close>

definition cycle_world :: world where
  "cycle_world =
     ex_world [ex_resource ''A'' ''JS'' ''/p/A.js'' [''B''],
               ex_resource ''B'' ''JS'' ''/p/B.js'' [''A''],
               ex_resource ''Bad'' ''JS'' ''/p/Bad.js'' []]
       []
       [(''/p/A.js'', [SetExportsProp ''a1'' (Prim 1), RequireActual ''B'',
                       SetExportsProp ''a2'' (Prim 2)]),
        (''/p/B.js'', [RequireActual ''A'', SetExportsProp ''b'' (Prim 3)]),
        (''/p/Bad.js'', [ThrowError ''boom''])]"

text \<open>The same project, configured to collect coverage from \<open>/p/A.js\<close> only, with
  \<open>collectCoverage\<close> not set.\<close>

definition coverage_world :: world where
  "coverage_world = cycle_world\<lparr>collectCoverageOnlyFrom := KeysOf [(''/p/A.js'', True)]\<rparr>"

text \<open>The same project in an environment whose evaluator rejects every source.\<close>

definition broken_world :: world where
  "broken_world = cycle_world\<lparr>runSourceText := (\<lambda>wrapper filename. None)\<rparr>"

text \<open>A loader whose global object holds a mock function with two recorded calls, a
  plain function and a number, with the timer hook registered; one module is
  registered, one override and one mock slot are set.\<close>

definition globals_state :: state where
  "globals_state =
     ex_state\<lparr>environment_global :=
                 Some \<lparr>props = [(''spy'', GMockFunction [1, 2]), (''setTimeout'', GFunction),
                                (''answer'', GPrimitive)],
                       mockClearTimers = True, timersCleared = 0\<rparr>,
              moduleRegistry := [''/p/A.js'' \<mapsto> 1],
              mockRegistry := [''/p/B.js'' \<mapsto> ObjRef 2],
              explicitShouldMock := [''user:/p/A.js:null'' \<mapsto> True],
              explicitlySetMocks := [''user:/p/A.js:null'' \<mapsto> Prim 42],
              configShouldMockModuleNames := [''A'' \<mapsto> False]\<rparr>"

text \<open>The loader with a new module object (at address 1) for the file whose top level
  throws, and for the module \<open>A\<close>.\<close>

definition bad_start :: state where
  "bad_start = snd (newModuleObj ex_state ''/p/Bad.js'')"

definition a_start :: state where
  "a_start = snd (newModuleObj ex_state ''/p/A.js'')"

text \<open>The loader with a new module object for a file that does not exist.\<close>

definition gone_start :: state where
  "gone_start = snd (newModuleObj ex_state ''/p/gone.js'')"

text \<open>The loader with the module \<open>A\<close> registered and not executed yet.\<close>

definition a_registered :: state where
  "a_registered = snd (registerModule ex_state ''/p/A.js'')"




section \<open>Properties\<close>

subsection \<open>Auxiliary facts\<close>

lemma indexOf_from_range: "indexOf_from i s pat = - 1 \<or> int i \<le> indexOf_from i s pat"
  by (induction i s pat rule: indexOf_from.induct) auto

lemma indexOf_0_iff: "indexOf s pat = 0 \<longleftrightarrow> prefix pat s"
proof (cases s)
  case Nil
  then show ?thesis by (simp add: indexOf_def)
next
  case (Cons c cs)
  have "indexOf_from (Suc 0) cs pat \<noteq> 0"
    using indexOf_from_range [of "Suc 0" cs pat] by auto
  with Cons show ?thesis by (simp add: indexOf_def)
qed

lemma split_append_sep: "sep \<notin> set a \<Longrightarrow> split sep (a @ sep # rest) = a # split sep rest"
  by (induction a) auto

lemma collectCoverageFor_state:
  "snd (collectCoverageFor w s filename moduleContent) = s
   \<or> snd (collectCoverageFor w s filename moduleContent)
       = s\<lparr>coverageCollectors := (coverageCollectors s)(filename \<mapsto> moduleContent)\<rparr>"
  by (auto simp: collectCoverageFor_def newCollector_def
        split: sum.splits bool.splits option.splits prod.splits if_splits)

lemma requireModule_path_real:
  assumes "getNormalizedModuleID w importer name = Some (Inr moduleID)" and "\<not> isCore w name"
    and "getResource w ''JS'' name \<noteq> None \<or> getResource w ''JSMock'' name = None
         \<or> explicitShouldMock s moduleID = Some False"
  shows "requireModule_path w s importer name = realChoice w importer name"
  using assms
  by (auto simp: requireModule_path_def realChoice_def loadChoice_def Let_def
        split: option.splits sum.splits)


lemmas ex_simps =
  ex_world_def ex_resource_def ex_dirname_def ex_basename_def ex_extname_def
  getResource_def resolveStubModuleName_def mappedModuleNames_def for_in_def
  is_array_index_def is_digit_def digit_val_def int_of_digits_def
  IS_PATH_BASED_MODULE_NAME_def getNormalizedModuleID_def normalizedModuleID_user_def
  moduleID_string_def str_of_nullable_def moduleNameToPath.simps
  nodeModuleNameToPath_step_def nodeModuleProjectConfigNameToResource_def plain_lookup_def
  Object_prototype_def cannotFind_def indexOf_def unmockListRegExps_def hostRequire_def Let_def
  suffix_to_prefix

subsection \<open>The vendor directory in the mock policy\<close>

text \<open>
  C3, as amended. For a requested name whose resolved path lies under the vendor path
  and whose ModuleID has no explicit override, \<open>_shouldMock\<close> decides real on a lookup
  that finds no cached decision for the name and at least one unmock pattern,
  whatever the patterns are; with auto-mock off it decides real without these two
  conditions.
\<close>

theorem vendor_path_decides_real:
  assumes "getNormalizedModuleID w currPath moduleName = Some (Inr moduleID)"
    and "explicitShouldMock s moduleID = None"
    and "moduleNameToPath w currPath moduleName = Some (Inr modulePath)"
    and "prefix (VENDOR_PATH w) modulePath"
    and "shouldAutoMock s \<Longrightarrow>
           configShouldMockModuleNames s moduleName = None \<and> unmockListRegExps w \<noteq> []"
  shows "map_option fst (shouldMock w s currPath moduleName) = Some (Inr False)"
  using assms by (auto simp: shouldMock_def indexOf_0_iff Let_def)

theorem vendor_path_decides_real_witness:
  "getNormalizedModuleID vendor_world ''/p/t.js'' ''jasmine''
     = Some (Inr ''user:/jest/vendor/jasmine.js:null'')
   \<and> explicitShouldMock ex_state ''user:/jest/vendor/jasmine.js:null'' = None
   \<and> moduleNameToPath vendor_world ''/p/t.js'' ''jasmine'' = Some (Inr ''/jest/vendor/jasmine.js'')
   \<and> prefix (VENDOR_PATH vendor_world) ''/jest/vendor/jasmine.js''
   \<and> shouldAutoMock ex_state
   \<and> configShouldMockModuleNames ex_state ''jasmine'' = None
   \<and> unmockListRegExps vendor_world \<noteq> []
   \<and> map_option fst (shouldMock vendor_world ex_state ''/p/t.js'' ''jasmine'') = Some (Inr False)"
proof -
  have h: "getNormalizedModuleID vendor_world ''/p/t.js'' ''jasmine''
             = Some (Inr ''user:/jest/vendor/jasmine.js:null'')"
    "explicitShouldMock ex_state ''user:/jest/vendor/jasmine.js:null'' = None"
    "moduleNameToPath vendor_world ''/p/t.js'' ''jasmine'' = Some (Inr ''/jest/vendor/jasmine.js'')"
    "prefix (VENDOR_PATH vendor_world) ''/jest/vendor/jasmine.js''"
    "shouldAutoMock ex_state"
    "configShouldMockModuleNames ex_state ''jasmine'' = None"
    "unmockListRegExps vendor_world \<noteq> []"
    by (simp_all add: vendor_world_def ex_state_def ex_simps)
  from vendor_path_decides_real [OF h(1-4)] h show ?thesis by simp
qed

text \<open>
  C3 as stated fails. The module \<open>jasmine\<close> resolves under the vendor path, and the
  policy decides mock for it: when an explicit override says so; when no unmock
  pattern is configured; and on the second lookup of the name, because the first
  lookup decided real and left \<open>true\<close> in the cache.
\<close>

theorem vendor_path_counterexample:
  "moduleNameToPath vendor_world ''/p/t.js'' ''jasmine'' = Some (Inr ''/jest/vendor/jasmine.js'')
   \<and> prefix (VENDOR_PATH vendor_world) ''/jest/vendor/jasmine.js''
   \<and> shouldMock vendor_world
        (ex_state\<lparr>explicitShouldMock := [''user:/jest/vendor/jasmine.js:null'' \<mapsto> True]\<rparr>)
        ''/p/t.js'' ''jasmine''
      = Some (Inr True,
          ex_state\<lparr>explicitShouldMock := [''user:/jest/vendor/jasmine.js:null'' \<mapsto> True]\<rparr>)
   \<and> shouldMock (vendor_world\<lparr>unmockedModulePathPatterns := []\<rparr>) ex_state
        ''/p/t.js'' ''jasmine''
      = Some (Inr True, ex_state)
   \<and> shouldMock vendor_world ex_state ''/p/t.js'' ''jasmine''
      = Some (Inr False, ex_state\<lparr>configShouldMockModuleNames := [''jasmine'' \<mapsto> True]\<rparr>)
   \<and> shouldMock vendor_world
        (ex_state\<lparr>configShouldMockModuleNames := [''jasmine'' \<mapsto> True]\<rparr>) ''/p/t.js'' ''jasmine''
      = Some (Inr True, ex_state\<lparr>configShouldMockModuleNames := [''jasmine'' \<mapsto> True]\<rparr>)"
  by (simp add: shouldMock_def vendor_world_def ex_state_def ex_simps)

subsection \<open>Resetting the registries\<close>

text \<open>
  C5. \<open>resetModuleRegistry\<close> leaves both registries empty, clears the recorded calls
  of every mock function among the properties of the global object and leaves the
  other properties as they are, invokes the hook \<open>mockClearTimers\<close> when it is
  registered, and leaves the explicit overrides and the explicitly set mocks
  unchanged.
\<close>

theorem resetModuleRegistry_effect:
  "mockRegistry (resetModuleRegistry s) = Map.empty
   \<and> moduleRegistry (resetModuleRegistry s) = Map.empty
   \<and> explicitShouldMock (resetModuleRegistry s) = explicitShouldMock s
   \<and> explicitlySetMocks (resetModuleRegistry s) = explicitlySetMocks s
   \<and> (case environment_global s of
        None \<Rightarrow> environment_global (resetModuleRegistry s) = None
      | Some g \<Rightarrow>
         (case environment_global (resetModuleRegistry s) of
            None \<Rightarrow> False
          | Some g' \<Rightarrow>
              map fst (props g') = map fst (props g)
              \<and> (\<forall>i < length (props g).
                    snd (props g' ! i) =
                      (case snd (props g ! i) of
                         GMockFunction calls \<Rightarrow> GMockFunction []
                       | v \<Rightarrow> v))
              \<and> mockClearTimers g' = mockClearTimers g
              \<and> timersCleared g' =
                  (if mockClearTimers g then Suc (timersCleared g) else timersCleared g)))"
  by (simp add: resetModuleRegistry_def clearGlobal_def mockClear_def Let_def
           split: option.splits)

theorem resetModuleRegistry_effect_witness:
  "moduleRegistry globals_state ''/p/A.js'' = Some 1
   \<and> moduleRegistry (resetModuleRegistry globals_state) = Map.empty
   \<and> mockRegistry (resetModuleRegistry globals_state) = Map.empty
   \<and> explicitShouldMock (resetModuleRegistry globals_state) ''user:/p/A.js:null'' = Some True
   \<and> explicitlySetMocks (resetModuleRegistry globals_state) ''user:/p/A.js:null'' = Some (Prim 42)
   \<and> map_option props (environment_global (resetModuleRegistry globals_state))
       = Some [(''spy'', GMockFunction []), (''setTimeout'', GFunction), (''answer'', GPrimitive)]
   \<and> map_option timersCleared (environment_global (resetModuleRegistry globals_state)) = Some 1"
  using resetModuleRegistry_effect [of globals_state]
  by (simp add: globals_state_def ex_state_def resetModuleRegistry_def clearGlobal_def
        mockClear_def)

subsection \<open>Explicit overrides\<close>

text \<open>
  C7. An explicit override stored for the ModuleID of the request is what
  \<open>_shouldMock\<close> returns, whatever the other rules would say (the lookup changes
  nothing). \<open>mock\<close> and \<open>dontMock\<close> write the same entry: after \<open>mock(x)\<close> then
  \<open>dontMock(x)\<close> the entry is \<open>false\<close>, the policy decides real, a require of \<open>x\<close>
  is \<open>requireModule\<close>, and \<open>requireModule\<close> loads the real path of \<open>x\<close>; in the other
  order the entry is \<open>true\<close>, the policy decides mock and the require is
  \<open>requireMock\<close>.
\<close>

theorem explicit_override_dominates:
  assumes "getNormalizedModuleID w currPath x = Some (Inr moduleID)"
  shows "(\<forall>b. explicitShouldMock s moduleID = Some b
            \<longrightarrow> shouldMock w s currPath x = Some (Inr b, s))
       \<and> (let s1 = s\<lparr>explicitShouldMock := (explicitShouldMock s)(moduleID \<mapsto> True)\<rparr>;
              s2 = s\<lparr>explicitShouldMock := (explicitShouldMock s)(moduleID \<mapsto> False)\<rparr>
          in jest_mock w s currPath x = Some (Inr (), s1)
             \<and> jest_dontMock w s1 currPath x = Some (Inr (), s2)
             \<and> shouldMock w s2 currPath x = Some (Inr False, s2)
             \<and> requireModuleOrMock (Suc n) w s2 currPath x = requireModule n w s2 currPath x
             \<and> (\<not> isCore w x \<longrightarrow>
                  requireModule_path w s2 currPath x = realChoice w currPath x))
       \<and> (let s1 = s\<lparr>explicitShouldMock := (explicitShouldMock s)(moduleID \<mapsto> False)\<rparr>;
              s2 = s\<lparr>explicitShouldMock := (explicitShouldMock s)(moduleID \<mapsto> True)\<rparr>
          in jest_dontMock w s currPath x = Some (Inr (), s1)
             \<and> jest_mock w s1 currPath x = Some (Inr (), s2)
             \<and> shouldMock w s2 currPath x = Some (Inr True, s2)
             \<and> requireModuleOrMock (Suc n) w s2 currPath x = requireMock n w s2 currPath x)"
proof -
  have "requireModule_path w
          (s\<lparr>explicitShouldMock := (explicitShouldMock s)(moduleID \<mapsto> False)\<rparr>) currPath x
        = realChoice w currPath x" if "\<not> isCore w x"
    using requireModule_path_real [OF assms that] by simp
  with assms show ?thesis
    by (simp add: shouldMock_def jest_mock_def jest_dontMock_def setExplicitShouldMock_def
          requireModuleOrMock_def requireModule_def requireMock_def requireModuleOrMock_body_def)
qed

theorem explicit_override_dominates_witness:
  "getNormalizedModuleID cycle_world ''/p/t.js'' ''A'' = Some (Inr ''user:/p/A.js:null'')
   \<and> explicitShouldMock globals_state ''user:/p/A.js:null'' = Some True
   \<and> shouldMock cycle_world globals_state ''/p/t.js'' ''A'' = Some (Inr True, globals_state)
   \<and> jest_dontMock cycle_world globals_state ''/p/t.js'' ''A''
       = Some (Inr (), globals_state\<lparr>explicitShouldMock := [''user:/p/A.js:null'' \<mapsto> False]\<rparr>)
   \<and> shouldMock cycle_world
        (globals_state\<lparr>explicitShouldMock := [''user:/p/A.js:null'' \<mapsto> False]\<rparr>) ''/p/t.js'' ''A''
       = Some (Inr False, globals_state\<lparr>explicitShouldMock := [''user:/p/A.js:null'' \<mapsto> False]\<rparr>)
   \<and> \<not> isCore cycle_world ''A''
   \<and> requireModule_path cycle_world
        (globals_state\<lparr>explicitShouldMock := [''user:/p/A.js:null'' \<mapsto> False]\<rparr>) ''/p/t.js'' ''A''
       = Some (Inr (Inr ''/p/A.js''))"
proof -
  have h: "getNormalizedModuleID cycle_world ''/p/t.js'' ''A'' = Some (Inr ''user:/p/A.js:null'')"
    by (simp add: cycle_world_def ex_simps)
  have e: "explicitShouldMock globals_state ''user:/p/A.js:null'' = Some True"
    by (simp add: globals_state_def)
  have u: "(explicitShouldMock globals_state)(''user:/p/A.js:null'' \<mapsto> False)
           = [''user:/p/A.js:null'' \<mapsto> False]"
    by (simp add: globals_state_def)
  have c: "\<not> isCore cycle_world ''A''"
    "realChoice cycle_world ''/p/t.js'' ''A'' = Some (Inr (Inr ''/p/A.js''))"
    by (simp_all add: cycle_world_def realChoice_def loadChoice_def ex_simps)
  from explicit_override_dominates [OF h, of globals_state 1] h e u c show ?thesis
    by (auto simp: Let_def jest_dontMock_def setExplicitShouldMock_def)
qed

subsection \<open>The decision cache and the reset\<close>

lemma shouldMock_explicit_same:
  "shouldMock w s currPath moduleName = Some (r, s1) \<Longrightarrow>
   explicitShouldMock s1 = explicitShouldMock s \<and> shouldAutoMock s1 = shouldAutoMock s"
  by (auto simp: shouldMock_def Let_def split: option.splits sum.splits if_splits)

lemma shouldMock_stores:
  assumes "shouldMock w s currPath moduleName = Some (Inr b, s1)"
    and "getNormalizedModuleID w currPath moduleName = Some (Inr moduleID)"
    and "explicitShouldMock s moduleID = None" and "\<not> isCore w moduleName"
    and "shouldAutoMock s" and "unmockListRegExps w \<noteq> []"
    and "\<forall>modulePath. moduleNameToPath w currPath moduleName = Some (Inr modulePath)
           \<longrightarrow> \<not> prefix (VENDOR_PATH w) modulePath"
  shows "configShouldMockModuleNames s1 moduleName = Some b"
  using assms
  by (auto simp: shouldMock_def indexOf_0_iff Let_def split: option.splits sum.splits if_splits)

lemma shouldMock_cached:
  assumes "configShouldMockModuleNames s moduleName = Some b"
    and "getNormalizedModuleID w currPath moduleName = Some (Inr moduleID)"
    and "explicitShouldMock s moduleID = None" and "\<not> isCore w moduleName"
    and "shouldAutoMock s"
  shows "shouldMock w (resetModuleRegistry s) currPath moduleName
           = Some (Inr b, resetModuleRegistry s)"
  using assms by (simp add: shouldMock_def resetModuleRegistry_def)

lemma shouldMock_again:
  assumes "shouldMock w s currPath moduleName = Some (Inr b, s1)"
    and "\<forall>modulePath. moduleNameToPath w currPath moduleName = Some (Inr modulePath)
           \<longrightarrow> \<not> prefix (VENDOR_PATH w) modulePath"
  shows "shouldMock w (resetModuleRegistry s1) currPath moduleName
           = Some (Inr b, resetModuleRegistry s1)"
proof (cases "getNormalizedModuleID w currPath moduleName")
  case None
  with assms(1) show ?thesis by (simp add: shouldMock_def)
next
  case (Some i)
  show ?thesis
  proof (cases i)
    case (Inl e)
    with Some assms(1) show ?thesis by (simp add: shouldMock_def)
  next
    case (Inr moduleID)
    show ?thesis
    proof (cases "explicitShouldMock s moduleID = None \<and> \<not> isCore w moduleName
                   \<and> shouldAutoMock s \<and> unmockListRegExps w \<noteq> []")
      case True
      from shouldMock_stores [OF assms(1) Some [unfolded Inr] _ _ _ _ assms(2)] True
      have c: "configShouldMockModuleNames s1 moduleName = Some b" by simp
      from shouldMock_explicit_same [OF assms(1)] True
      have "explicitShouldMock s1 moduleID = None" "shouldAutoMock s1" by simp_all
      with c Some Inr True show ?thesis by (simp add: shouldMock_cached)
    next
      case False
      with Some Inr assms(1) show ?thesis
        by (auto simp: shouldMock_def resetModuleRegistry_def split: option.splits if_splits)
    qed
  qed
qed

text \<open>
  C9, as amended. \<open>resetModuleRegistry\<close> empties both registries and leaves the cache
  of decisions per requested name as it is. A lookup that returns a verdict, for a
  name that does not resolve under the vendor path, is followed after a reset by a
  lookup that returns the same verdict and changes nothing. When the verdict came
  from the branch of the unmock patterns (no explicit override, not a built-in,
  auto-mock on, at least one pattern), the lookup has stored it under the requested
  name, and after the reset the stored verdict is what a lookup of the name returns
  from any importer whose ModuleID has no override. A lookup decided by an explicit
  override, for a built-in, with auto-mock off or with no unmock pattern stores
  nothing.
\<close>

theorem decision_cache_survives_reset:
  assumes "shouldMock w s currPath moduleName = Some (Inr b, s1)"
    and "\<forall>modulePath. moduleNameToPath w currPath moduleName = Some (Inr modulePath)
           \<longrightarrow> \<not> prefix (VENDOR_PATH w) modulePath"
  shows "configShouldMockModuleNames (resetModuleRegistry s1) = configShouldMockModuleNames s1
       \<and> mockRegistry (resetModuleRegistry s1) = Map.empty
       \<and> moduleRegistry (resetModuleRegistry s1) = Map.empty
       \<and> shouldMock w (resetModuleRegistry s1) currPath moduleName
           = Some (Inr b, resetModuleRegistry s1)
       \<and> (\<forall>moduleID. getNormalizedModuleID w currPath moduleName = Some (Inr moduleID)
              \<and> explicitShouldMock s moduleID = None \<and> \<not> isCore w moduleName
              \<and> shouldAutoMock s \<and> unmockListRegExps w \<noteq> []
            \<longrightarrow> configShouldMockModuleNames s1 moduleName = Some b
               \<and> (\<forall>importer moduleID'.
                     getNormalizedModuleID w importer moduleName = Some (Inr moduleID')
                     \<and> explicitShouldMock s1 moduleID' = None
                    \<longrightarrow> shouldMock w (resetModuleRegistry s1) importer moduleName
                          = Some (Inr b, resetModuleRegistry s1)))
       \<and> (\<forall>moduleID. getNormalizedModuleID w currPath moduleName = Some (Inr moduleID)
              \<and> (explicitShouldMock s moduleID \<noteq> None \<or> isCore w moduleName
                   \<or> \<not> shouldAutoMock s \<or> unmockListRegExps w = [])
            \<longrightarrow> s1 = s)"
proof (intro conjI allI impI)
  show "shouldMock w (resetModuleRegistry s1) currPath moduleName
          = Some (Inr b, resetModuleRegistry s1)"
    using assms by (rule shouldMock_again)
next
  fix moduleID
  assume a: "getNormalizedModuleID w currPath moduleName = Some (Inr moduleID)
              \<and> explicitShouldMock s moduleID = None \<and> \<not> isCore w moduleName
              \<and> shouldAutoMock s \<and> unmockListRegExps w \<noteq> []"
  then show c: "configShouldMockModuleNames s1 moduleName = Some b"
    using shouldMock_stores [OF assms(1) _ _ _ _ _ assms(2)] by simp
  fix importer moduleID'
  assume "getNormalizedModuleID w importer moduleName = Some (Inr moduleID')
           \<and> explicitShouldMock s1 moduleID' = None"
  with a c shouldMock_explicit_same [OF assms(1)]
  show "shouldMock w (resetModuleRegistry s1) importer moduleName
          = Some (Inr b, resetModuleRegistry s1)"
    by (simp add: shouldMock_cached)
next
  fix moduleID
  assume "getNormalizedModuleID w currPath moduleName = Some (Inr moduleID)
            \<and> (explicitShouldMock s moduleID \<noteq> None \<or> isCore w moduleName
                 \<or> \<not> shouldAutoMock s \<or> unmockListRegExps w = [])"
  with assms(1) show "s1 = s"
    by (auto simp: shouldMock_def split: option.splits if_splits)
qed (simp_all add: resetModuleRegistry_def)

theorem decision_cache_survives_reset_witness:
  "shouldMock keep_world loaded_state ''/p/t.js'' ''K''
     = Some (Inr False, loaded_state\<lparr>configShouldMockModuleNames := [''K'' \<mapsto> False]\<rparr>)
   \<and> moduleNameToPath keep_world ''/p/t.js'' ''K'' = Some (Inr ''/keep/K.js'')
   \<and> \<not> prefix (VENDOR_PATH keep_world) ''/keep/K.js''
   \<and> getNormalizedModuleID keep_world ''/p/t.js'' ''K'' = Some (Inr ''user:/keep/K.js:null'')
   \<and> getNormalizedModuleID keep_world ''/q/u.js'' ''K'' = Some (Inr ''user:/keep/K.js:null'')
   \<and> explicitShouldMock loaded_state ''user:/keep/K.js:null'' = None
   \<and> \<not> isCore keep_world ''K'' \<and> shouldAutoMock loaded_state
   \<and> unmockListRegExps keep_world \<noteq> []
   \<and> moduleRegistry loaded_state ''/keep/K.js'' = Some 1
   \<and> moduleRegistry (resetModuleRegistry
         (loaded_state\<lparr>configShouldMockModuleNames := [''K'' \<mapsto> False]\<rparr>)) = Map.empty
   \<and> configShouldMockModuleNames (resetModuleRegistry
         (loaded_state\<lparr>configShouldMockModuleNames := [''K'' \<mapsto> False]\<rparr>)) ''K'' = Some False
   \<and> shouldMock keep_world (resetModuleRegistry
         (loaded_state\<lparr>configShouldMockModuleNames := [''K'' \<mapsto> False]\<rparr>)) ''/p/t.js'' ''K''
       = Some (Inr False, resetModuleRegistry
           (loaded_state\<lparr>configShouldMockModuleNames := [''K'' \<mapsto> False]\<rparr>))
   \<and> shouldMock keep_world (resetModuleRegistry
         (loaded_state\<lparr>configShouldMockModuleNames := [''K'' \<mapsto> False]\<rparr>)) ''/q/u.js'' ''K''
       = Some (Inr False, resetModuleRegistry
           (loaded_state\<lparr>configShouldMockModuleNames := [''K'' \<mapsto> False]\<rparr>))
   \<and> \<not> shouldAutoMock (jest_autoMockOff loaded_state)
   \<and> shouldMock keep_world (jest_autoMockOff loaded_state) ''/p/t.js'' ''K''
       = Some (Inr False, jest_autoMockOff loaded_state)
   \<and> shouldMock keep_world (resetModuleRegistry (jest_autoMockOff loaded_state)) ''/p/t.js'' ''K''
       = Some (Inr False, resetModuleRegistry (jest_autoMockOff loaded_state))"
proof -
  let ?s1 = "loaded_state\<lparr>configShouldMockModuleNames := [''K'' \<mapsto> False]\<rparr>"
  have h: "shouldMock keep_world loaded_state ''/p/t.js'' ''K'' = Some (Inr False, ?s1)"
    by (simp add: shouldMock_def keep_world_def keep_pattern_def loaded_state_def ex_state_def
          ex_simps)
  have p: "moduleNameToPath keep_world ''/p/t.js'' ''K'' = Some (Inr ''/keep/K.js'')"
    "\<not> prefix (VENDOR_PATH keep_world) ''/keep/K.js''"
    by (simp_all add: keep_world_def ex_simps)
  then have v: "\<forall>modulePath. moduleNameToPath keep_world ''/p/t.js'' ''K'' = Some (Inr modulePath)
                  \<longrightarrow> \<not> prefix (VENDOR_PATH keep_world) modulePath"
    by simp
  have i: "getNormalizedModuleID keep_world ''/p/t.js'' ''K'' = Some (Inr ''user:/keep/K.js:null'')"
    "getNormalizedModuleID keep_world ''/q/u.js'' ''K'' = Some (Inr ''user:/keep/K.js:null'')"
    "explicitShouldMock loaded_state ''user:/keep/K.js:null'' = None"
    "explicitShouldMock ?s1 ''user:/keep/K.js:null'' = None"
    "\<not> isCore keep_world ''K''" "shouldAutoMock loaded_state"
    "unmockListRegExps keep_world \<noteq> []"
    "moduleRegistry loaded_state ''/keep/K.js'' = Some 1"
    by (simp_all add: keep_world_def loaded_state_def ex_state_def ex_simps)
  have o: "\<not> shouldAutoMock (jest_autoMockOff loaded_state)"
    by (simp add: jest_autoMockOff_def)
  have "map_option fst (shouldMock keep_world (jest_autoMockOff loaded_state) ''/p/t.js'' ''K'')
          = Some (Inr False)"
    by (simp add: shouldMock_def jest_autoMockOff_def keep_world_def loaded_state_def
          ex_state_def ex_simps)
  then obtain t where t: "shouldMock keep_world (jest_autoMockOff loaded_state) ''/p/t.js'' ''K''
                            = Some (Inr False, t)"
    by (cases "shouldMock keep_world (jest_autoMockOff loaded_state) ''/p/t.js'' ''K''") auto
  from decision_cache_survives_reset [OF t v] i(1) o
  have "t = jest_autoMockOff loaded_state"
    "shouldMock keep_world (resetModuleRegistry t) ''/p/t.js'' ''K''
       = Some (Inr False, resetModuleRegistry t)"
    by auto
  with t have off: "shouldMock keep_world (jest_autoMockOff loaded_state) ''/p/t.js'' ''K''
       = Some (Inr False, jest_autoMockOff loaded_state)"
    "shouldMock keep_world (resetModuleRegistry (jest_autoMockOff loaded_state)) ''/p/t.js'' ''K''
       = Some (Inr False, resetModuleRegistry (jest_autoMockOff loaded_state))"
    by simp_all
  from decision_cache_survives_reset [OF h v] h p i o off show ?thesis by simp
qed

text \<open>
  C9 as stated fails. The first lookup of \<open>jasmine\<close>, whose path lies under the vendor
  path, decides real and leaves \<open>true\<close> in the cache; after a reset the next lookup
  returns the cached \<open>true\<close>, not the verdict computed before. A verdict computed with
  auto-mock off is not stored at all: after auto-mock is turned on and the registries
  are reset, the next lookup computes another one.
\<close>

theorem decision_cache_counterexample:
  "shouldMock vendor_world ex_state ''/p/t.js'' ''jasmine''
     = Some (Inr False, ex_state\<lparr>configShouldMockModuleNames := [''jasmine'' \<mapsto> True]\<rparr>)
   \<and> shouldMock vendor_world
        (resetModuleRegistry (ex_state\<lparr>configShouldMockModuleNames := [''jasmine'' \<mapsto> True]\<rparr>))
        ''/p/t.js'' ''jasmine''
     = Some (Inr True,
         resetModuleRegistry (ex_state\<lparr>configShouldMockModuleNames := [''jasmine'' \<mapsto> True]\<rparr>))
   \<and> shouldMock keep_world (jest_autoMockOff ex_state) ''/p/t.js'' ''A''
     = Some (Inr False, jest_autoMockOff ex_state)
   \<and> shouldMock keep_world
        (resetModuleRegistry (jest_autoMockOn (jest_autoMockOff ex_state))) ''/p/t.js'' ''A''
     = Some (Inr True,
         (resetModuleRegistry (jest_autoMockOn (jest_autoMockOff ex_state)))
           \<lparr>configShouldMockModuleNames := [''A'' \<mapsto> True]\<rparr>)"
  by (simp add: shouldMock_def vendor_world_def keep_world_def keep_pattern_def ex_state_def
        resetModuleRegistry_def jest_autoMockOff_def jest_autoMockOn_def ex_simps)

subsection \<open>Dependency paths\<close>

lemma getRealPath_moduleID_string:
  assumes "path_delimiter w \<notin> set moduleType"
    and "path_delimiter w \<notin> set (str_of_nullable realAbsPath)"
  shows "getRealPathFromNormalizedModuleID w (moduleID_string w moduleType realAbsPath mockAbsPath)
         = Some (str_of_nullable realAbsPath)"
proof -
  have "split (path_delimiter w) (moduleID_string w moduleType realAbsPath mockAbsPath)
        = moduleType # str_of_nullable realAbsPath
            # split (path_delimiter w) (str_of_nullable mockAbsPath)"
    using assms by (simp add: moduleID_string_def split_append_sep)
  then show ?thesis by (simp add: getRealPathFromNormalizedModuleID_def)
qed

lemma moduleID_core:
  "isCore w m \<Longrightarrow>
   getNormalizedModuleID w currPath m = Some (Inr (moduleID_string w ''node'' (Some m) None))"
  by (simp add: getNormalizedModuleID_def)

lemma moduleID_mock_alone:
  assumes "\<not> isCore w m" and "\<not> IS_PATH_BASED_MODULE_NAME m"
    and "getResource w ''JS'' m = None" and "getResource w ''JSMock'' m = Some mock"
  shows "getNormalizedModuleID w currPath m
         = Some (Inr (moduleID_string w ''user'' None (Some (res_path mock))))"
  using assms by (simp add: getNormalizedModuleID_def normalizedModuleID_user_def)

lemma dependencyPaths_loop_append:
  "dependencyPaths_loop w resource (xs @ ys) =
     (case dependencyPaths_loop w resource xs of
        None \<Rightarrow> None
      | Some ds1 \<Rightarrow>
         (case dependencyPaths_loop w resource ys of
            None \<Rightarrow> None
          | Some ds2 \<Rightarrow> Some (ds1 @ ds2)))"
  by (induction xs) (auto split: option.splits sum.splits)

lemma dependencyPaths_loop_standalone:
  assumes "path_delimiter w = CHR '':'' \<or> path_delimiter w = CHR '';''"
    and "standalone w (originOf resource m)"
  shows "dependencyPaths_loop w resource [m]
         = Some [if isCore w (originOf resource m)
                 then Some (originOf resource m) else Some ''null'']"
proof -
  let ?o = "originOf resource m"
  have d: "path_delimiter w \<notin> set ''node''" "path_delimiter w \<notin> set ''user''"
    "path_delimiter w \<notin> set ''null''"
    using assms(1) by auto
  show ?thesis
  proof (cases "isCore w ?o")
    case True
    with assms(2) have "path_delimiter w \<notin> set ?o" by (simp add: standalone_def)
    then have "getRealPathFromNormalizedModuleID w (moduleID_string w ''node'' (Some ?o) None)
               = Some ?o"
      using d(1) getRealPath_moduleID_string [of w "''node''" "Some ?o" None]
      by (simp add: str_of_nullable_def)
    with True show ?thesis by (simp add: moduleID_core)
  next
    case False
    with assms(2) obtain mock where m: "\<not> IS_PATH_BASED_MODULE_NAME ?o"
      "getResource w ''JS'' ?o = None" "getResource w ''JSMock'' ?o = Some mock"
      by (auto simp: standalone_def)
    have "getRealPathFromNormalizedModuleID w
            (moduleID_string w ''user'' None (Some (res_path mock))) = Some ''null''"
      using d(2,3) getRealPath_moduleID_string [of w "''user''" None "Some (res_path mock)"]
      by (simp add: str_of_nullable_def)
    with False m show ?thesis
      by (simp add: moduleID_mock_alone [OF False m])
  qed
qed

text \<open>
  C10. \<open>getDependenciesFromPath\<close> returns, at the place of a required module that is
  a platform built-in, the bare module name, and at the place of a required module
  known by a manual mock alone (its ModuleID has no real path) the string \<open>null\<close>,
  whatever the other required modules of the resource are: the entries are the
  second field of the string-encoded ModuleID.
\<close>

theorem dependencies_not_absolute_paths:
  assumes "rm_getResourceByPath w modulePath = Some resource"
    and "res_type resource \<noteq> ''ProjectConfiguration''"
    and "res_type resource \<noteq> ''Resource''"
    and "path_delimiter w = CHR '':'' \<or> path_delimiter w = CHR '';''"
    and "requiredModules resource = before @ m # after"
    and "standalone w (originOf resource m)"
    and "dependencyPaths_loop w resource before = Some ds1"
    and "dependencyPaths_loop w resource after = Some ds2"
  shows "getDependenciesFromPath w modulePath
         = Some (Inr (ds1 @ (if isCore w (originOf resource m)
                             then Some (originOf resource m) else Some ''null'') # ds2))"
proof -
  have "dependencyPaths_loop w resource (before @ [m] @ after)
        = Some (ds1 @ [if isCore w (originOf resource m)
                       then Some (originOf resource m) else Some ''null''] @ ds2)"
    using assms(7,8) dependencyPaths_loop_standalone [OF assms(4,6)]
    by (simp only: dependencyPaths_loop_append option.case)
  with assms(1,2,3,5) show ?thesis
    by (simp add: getDependenciesFromPath_def getDependencyPathsFromResource_def)
qed

theorem dependencies_not_absolute_paths_witness:
  "rm_getResourceByPath mixed_world ''/p/App.js''
     = Some (ex_resource ''App'' ''JS'' ''/p/App.js'' [''X'', ''Lib'', ''fs''])
   \<and> standalone mixed_world ''X'' \<and> \<not> standalone mixed_world ''Lib''
   \<and> standalone mixed_world ''fs''
   \<and> \<not> isCore mixed_world ''X'' \<and> isCore mixed_world ''fs''
   \<and> dependencyPaths_loop mixed_world
         (ex_resource ''App'' ''JS'' ''/p/App.js'' [''X'', ''Lib'', ''fs'']) [''Lib'', ''fs'']
       = Some [Some ''/p/Lib.js'', Some ''fs'']
   \<and> dependencyPaths_loop mixed_world
         (ex_resource ''App'' ''JS'' ''/p/App.js'' [''X'', ''Lib'', ''fs'']) [''X'', ''Lib'']
       = Some [Some ''null'', Some ''/p/Lib.js'']
   \<and> getDependenciesFromPath mixed_world ''/p/App.js''
       = Some (Inr [Some ''null'', Some ''/p/Lib.js'', Some ''fs''])"
proof -
  let ?App = "ex_resource ''App'' ''JS'' ''/p/App.js'' [''X'', ''Lib'', ''fs'']"
  have r: "rm_getResourceByPath mixed_world ''/p/App.js'' = Some ?App"
    "res_type ?App \<noteq> ''ProjectConfiguration''" "res_type ?App \<noteq> ''Resource''"
    "path_delimiter mixed_world = CHR '':'' \<or> path_delimiter mixed_world = CHR '';''"
    by (simp_all add: mixed_world_def ex_simps)
  have o: "originOf ?App ''X'' = ''X''" "originOf ?App ''fs'' = ''fs''"
    by (simp_all add: originOf_def ex_resource_def)
  have s: "standalone mixed_world ''X''" "\<not> standalone mixed_world ''Lib''"
    "standalone mixed_world ''fs''" "\<not> isCore mixed_world ''X''" "isCore mixed_world ''fs''"
    by (simp_all add: standalone_def mixed_world_def ex_simps)
  have q: "requiredModules ?App = [] @ ''X'' # [''Lib'', ''fs'']"
    "requiredModules ?App = [''X'', ''Lib''] @ ''fs'' # []"
    by (simp_all add: ex_resource_def)
  have l: "dependencyPaths_loop mixed_world ?App [] = Some []"
    "dependencyPaths_loop mixed_world ?App [''Lib'', ''fs''] = Some [Some ''/p/Lib.js'', Some ''fs'']"
    "dependencyPaths_loop mixed_world ?App [''X'', ''Lib''] = Some [Some ''null'', Some ''/p/Lib.js'']"
    by (simp_all add: originOf_def getRealPathFromNormalizedModuleID_def mixed_world_def ex_simps)
  from dependencies_not_absolute_paths [OF r q(1) _ l(1) l(2)]
       dependencies_not_absolute_paths [OF r q(2) _ l(3) l(1)]
       r s o l
  show ?thesis by simp
qed

subsection \<open>Name mapping\<close>

lemma obj_set_fresh: "k \<notin> fst ` set obj \<Longrightarrow> obj_set obj k v = obj @ [(k, v)]"
  by (induction obj) auto

lemma foldl_obj_set_distinct:
  "distinct (map snd ms) \<Longrightarrow> snd ` set ms \<inter> fst ` set acc = {} \<Longrightarrow>
   foldl (\<lambda>obj m. obj_set obj (snd m) (fst m)) acc ms = acc @ map (\<lambda>m. (snd m, fst m)) ms"
proof (induction ms arbitrary: acc)
  case Nil
  then show ?case by simp
next
  case (Cons m ms)
  from Cons.prems have fresh: "snd m \<notin> fst ` set acc" by auto
  have "snd ` set ms \<inter> fst ` set (acc @ [(snd m, fst m)]) = {}"
    using Cons.prems by auto
  with Cons.IH [of "acc @ [(snd m, fst m)]"] Cons.prems fresh show ?case
    by (simp add: obj_set_fresh)
qed

lemma for_in_no_index:
  "\<forall>kv \<in> set obj. \<not> is_array_index (fst kv) \<Longrightarrow> for_in obj = obj"
  by (simp add: for_in_def filter_id_conv)

lemma first_match_append:
  "\<forall>kv \<in> set pre. \<not> snd kv n \<Longrightarrow> re n \<Longrightarrow> first_match (pre @ (c, re) # post) n = Some c"
  by (induction pre) auto

lemma resolveStub_first_declared:
  assumes "moduleNameMapper w = pre @ (pattern, canonicalName) # post"
    and "\<forall>m \<in> set pre. \<not> fst m requestedName"
    and "pattern requestedName"
    and "distinct (map snd (moduleNameMapper w))"
    and "\<forall>m \<in> set (moduleNameMapper w). \<not> is_array_index (snd m)"
  shows "resolveStubModuleName w requestedName = Some canonicalName"
proof -
  have obj: "mappedModuleNames w = map (\<lambda>m. (snd m, fst m)) (moduleNameMapper w)"
    using foldl_obj_set_distinct [OF assms(4), of "[]"] by (simp add: mappedModuleNames_def)
  have "for_in (mappedModuleNames w) = mappedModuleNames w"
    using assms(5) by (intro for_in_no_index) (auto simp: obj)
  then have "resolveStubModuleName w requestedName
             = first_match (map (\<lambda>m. (snd m, fst m)) pre
                 @ (canonicalName, pattern) # map (\<lambda>m. (snd m, fst m)) post) requestedName"
    by (simp add: resolveStubModuleName_def obj assms(1))
  also have "\<dots> = Some canonicalName"
    using assms(2,3) by (intro first_match_append) auto
  finally show ?thesis .
qed

lemma getResource_JS_mapper:
  "getResource (w\<lparr>moduleNameMapper := mp\<rparr>) ''JS'' n = getResource w ''JS'' n"
  by (simp add: getResource_def Let_def)

lemma step_mapper:
  "nodeModuleNameToPath_step (w\<lparr>moduleNameMapper := mp\<rparr>) c n = nodeModuleNameToPath_step w c n"
  by (simp add: nodeModuleNameToPath_step_def nodeModuleProjectConfigNameToResource_def Let_def
           cong: option.case_cong lookup.case_cong if_cong)

lemma moduleNameToPath_mapper_Some:
  assumes "moduleNameToPath w c n = Some y"
  shows "moduleNameToPath (w\<lparr>moduleNameMapper := mp\<rparr>) c n = Some y"
proof (rule moduleNameToPath.raw_induct
    [where P = "\<lambda>w c n y. moduleNameToPath (w\<lparr>moduleNameMapper := mp\<rparr>) c n = Some y",
     OF _ assms], goal_cases)
  case (1 f w c n y)
  then show ?case
    by (subst moduleNameToPath.simps)
       (auto simp: getResource_JS_mapper step_mapper split: option.splits sum.splits prod.splits)
qed

lemma moduleNameToPath_mapper:
  "moduleNameToPath (w\<lparr>moduleNameMapper := mp\<rparr>) c n = moduleNameToPath w c n"
proof (cases "moduleNameToPath w c n")
  case (Some y)
  then show ?thesis by (simp add: moduleNameToPath_mapper_Some)
next
  case None
  show ?thesis
  proof (cases "moduleNameToPath (w\<lparr>moduleNameMapper := mp\<rparr>) c n")
    case (Some y)
    from moduleNameToPath_mapper_Some [OF Some, of "moduleNameMapper w"] None
    show ?thesis by simp
  next
    case None': None
    with None show ?thesis by simp
  qed
qed

text \<open>
  C4, as amended. Name mapping is a fallback of \<open>_getResource\<close> for a manual-mock
  lookup that the resource map misses: the mappings are tried in the enumeration
  order of the object keyed by canonical name, which is the declared order when the
  canonical names are distinct and none is an array index, and the first pattern
  that matches the requested name makes the source resource of its canonical name
  the result of the lookup. The lookup of a source resource and the resolution of
  the path use the requested name as it is, whatever the mappings are.
\<close>

theorem name_mapping_fallback:
  assumes "moduleNameMapper w = pre @ (pattern, canonicalName) # post"
    and "\<forall>m \<in> set pre. \<not> fst m requestedName"
    and "pattern requestedName"
    and "distinct (map snd (moduleNameMapper w))"
    and "\<forall>m \<in> set (moduleNameMapper w). \<not> is_array_index (snd m)"
  shows "resolveStubModuleName w requestedName = Some canonicalName
       \<and> getResource w ''JSMock'' requestedName
           = (case rm_getResource w ''JSMock'' requestedName of
                Some mock \<Rightarrow> Some mock
              | None \<Rightarrow> if canonicalName = [] then None
                        else rm_getResource w ''JS'' canonicalName)
       \<and> getResource w ''JS'' requestedName
           = getResource (w\<lparr>moduleNameMapper := []\<rparr>) ''JS'' requestedName
       \<and> moduleNameToPath w currPath requestedName
           = moduleNameToPath (w\<lparr>moduleNameMapper := []\<rparr>) currPath requestedName"
proof -
  have "getResource w ''JSMock'' requestedName
        = (case rm_getResource w ''JSMock'' requestedName of
             Some mock \<Rightarrow> Some mock
           | None \<Rightarrow> if canonicalName = [] then None
                     else rm_getResource w ''JS'' canonicalName)"
    using resolveStub_first_declared [OF assms]
    by (simp add: getResource_def Let_def split: option.splits)
  with resolveStub_first_declared [OF assms] show ?thesis
    by (simp add: getResource_JS_mapper moduleNameToPath_mapper)
qed

theorem name_mapping_fallback_witness:
  "moduleNameMapper mapper_world = [] @ (alias_pattern, ''Canonical'') # []
   \<and> alias_pattern ''alias''
   \<and> distinct (map snd (moduleNameMapper mapper_world))
   \<and> \<not> is_array_index ''Canonical''
   \<and> resolveStubModuleName mapper_world ''alias'' = Some ''Canonical''
   \<and> map_option res_path (getResource mapper_world ''JSMock'' ''alias'') = Some ''/p/canonical.js''
   \<and> map_option res_path (getResource mapper_world ''JS'' ''alias'') = Some ''/p/alias.js''"
proof -
  have h: "moduleNameMapper mapper_world = [] @ (alias_pattern, ''Canonical'') # []"
    "\<forall>m \<in> set []. \<not> fst m ''alias''"
    "alias_pattern ''alias''"
    "distinct (map snd (moduleNameMapper mapper_world))"
    "\<forall>m \<in> set (moduleNameMapper mapper_world). \<not> is_array_index (snd m)"
    by (simp_all add: mapper_world_def alias_pattern_def ex_simps)
  from name_mapping_fallback [OF h, of "''/p/t.js''"] h show ?thesis
    by (simp add: mapper_world_def alias_pattern_def ex_simps)
qed

text \<open>
  C4 as stated fails. The name \<open>alias\<close> matches the pattern of the mapping to
  \<open>Canonical\<close>, and it is resolved as \<open>alias\<close>: its real path is the file of
  \<open>alias\<close>, and the mapping only supplies the file of \<open>Canonical\<close> as its mock path.
\<close>

theorem name_mapping_counterexample:
  "resolveStubModuleName mapper_world ''alias'' = Some ''Canonical''
   \<and> moduleNameToPath mapper_world ''/p/t.js'' ''alias'' = Some (Inr ''/p/alias.js'')
   \<and> moduleNameToPath mapper_world ''/p/t.js'' ''Canonical'' = Some (Inr ''/p/canonical.js'')
   \<and> getNormalizedModuleID mapper_world ''/p/t.js'' ''alias''
       = Some (Inr ''user:/p/alias.js:/p/canonical.js'')
   \<and> getNormalizedModuleID mapper_world ''/p/t.js'' ''Canonical''
       = Some (Inr ''user:/p/canonical.js:null'')"
  by (simp add: mapper_world_def alias_pattern_def ex_simps)

subsection \<open>Failing resolution\<close>

lemma getNormalizedModuleID_fails:
  assumes "getNormalizedModuleID w currPath n = Some (Inl e)"
  shows "\<not> isCore w n \<and> moduleNameToPath w currPath n = Some (Inl e)
         \<and> (IS_PATH_BASED_MODULE_NAME n
             \<or> (getResource w ''JS'' n = None \<and> getResource w ''JSMock'' n = None))"
  using assms
  by (auto simp: getNormalizedModuleID_def split: if_splits option.splits sum.splits)

lemma moduleNameToPath_known:
  "getResource w ''JS'' n = Some r \<Longrightarrow> moduleNameToPath w currPath n = Some (Inr (res_path r))"
  by (subst moduleNameToPath.simps) simp

lemma mock_stands_in:
  assumes "getNormalizedModuleID w currPath n = Some (Inr moduleID)"
    and "moduleNameToPath w currPath n = Some (Inl e)"
    and "\<not> isCore w n"
  shows "\<not> IS_PATH_BASED_MODULE_NAME n \<and> getResource w ''JSMock'' n \<noteq> None"
proof -
  have js: "getResource w ''JS'' n = None"
    using assms(2) moduleNameToPath_known [of w n _ currPath]
    by (cases "getResource w ''JS'' n") auto
  from assms js show ?thesis
    by (auto simp: getNormalizedModuleID_def split: if_splits)
qed

text \<open>
  C8, as amended. \<open>_getNormalizedModuleID\<close> fails only when the resolution of the
  path fails, for a name that is path-form or is known to the resource map neither
  by a source nor by a manual mock; a path-form name fails so whether or not a
  manual mock exists for it. The error propagates from the mock policy unchanged,
  with the state unchanged. When the ModuleID is computed and the resolution of the
  real path fails during the decision, a manual mock exists, the decision is mock
  and no error is raised. The loop that collects the dependency paths of a resource
  skips a required name whose ModuleID cannot be computed.
\<close>

theorem resolution_failure:
  shows "(getNormalizedModuleID w currPath n = Some (Inl e) \<longrightarrow>
            moduleNameToPath w currPath n = Some (Inl e)
            \<and> (IS_PATH_BASED_MODULE_NAME n
                \<or> (getResource w ''JS'' n = None \<and> getResource w ''JSMock'' n = None))
            \<and> shouldMock w s currPath n = Some (Inl e, s))
       \<and> (getNormalizedModuleID w currPath n = Some (Inr moduleID)
            \<and> moduleNameToPath w currPath n = Some (Inl e)
            \<and> explicitShouldMock s moduleID = None \<and> \<not> isCore w n \<and> shouldAutoMock s
            \<and> configShouldMockModuleNames s n = None \<and> unmockListRegExps w \<noteq> [] \<longrightarrow>
            getResource w ''JSMock'' n \<noteq> None
            \<and> shouldMock w s currPath n
                = Some (Inr True, s\<lparr>configShouldMockModuleNames :=
                                      (configShouldMockModuleNames s)(n \<mapsto> True)\<rparr>))
       \<and> (getNormalizedModuleID w (res_path resource) (originOf resource n) = Some (Inl e) \<longrightarrow>
            dependencyPaths_loop w resource (n # rest) = dependencyPaths_loop w resource rest)"
proof (intro conjI impI)
  assume a: "getNormalizedModuleID w currPath n = Some (Inl e)"
  from getNormalizedModuleID_fails [OF a]
  show "moduleNameToPath w currPath n = Some (Inl e)"
    and "IS_PATH_BASED_MODULE_NAME n
         \<or> (getResource w ''JS'' n = None \<and> getResource w ''JSMock'' n = None)"
    by simp_all
  from a show "shouldMock w s currPath n = Some (Inl e, s)"
    by (simp add: shouldMock_def)
next
  assume b: "getNormalizedModuleID w currPath n = Some (Inr moduleID)
            \<and> moduleNameToPath w currPath n = Some (Inl e)
            \<and> explicitShouldMock s moduleID = None \<and> \<not> isCore w n \<and> shouldAutoMock s
            \<and> configShouldMockModuleNames s n = None \<and> unmockListRegExps w \<noteq> []"
  then have m: "getResource w ''JSMock'' n \<noteq> None"
    using mock_stands_in [of w currPath n moduleID e] by simp
  then show "getResource w ''JSMock'' n \<noteq> None" .
  from b m show "shouldMock w s currPath n
                = Some (Inr True, s\<lparr>configShouldMockModuleNames :=
                                      (configShouldMockModuleNames s)(n \<mapsto> True)\<rparr>)"
    by (simp add: shouldMock_def Let_def)
next
  assume "getNormalizedModuleID w (res_path resource) (originOf resource n) = Some (Inl e)"
  then show "dependencyPaths_loop w resource (n # rest) = dependencyPaths_loop w resource rest"
    by simp
qed

theorem resolution_failure_witness:
  "getNormalizedModuleID cycle_world ''/p/t.js'' ''nothere''
     = Some (Inl (CannotFindModule ''nothere'' ''/p/t.js''))
   \<and> moduleNameToPath cycle_world ''/p/t.js'' ''nothere''
       = Some (Inl (CannotFindModule ''nothere'' ''/p/t.js''))
   \<and> getResource cycle_world ''JSMock'' ''nothere'' = None
   \<and> shouldMock cycle_world ex_state ''/p/t.js'' ''nothere''
       = Some (Inl (CannotFindModule ''nothere'' ''/p/t.js''), ex_state)
   \<and> getNormalizedModuleID mockonly_unmock_world ''/p/t.js'' ''X''
       = Some (Inr ''user:null:/p/__mocks__/X.js'')
   \<and> moduleNameToPath mockonly_unmock_world ''/p/t.js'' ''X''
       = Some (Inl (CannotFindModule ''X'' ''/p/t.js''))
   \<and> shouldMock mockonly_unmock_world ex_state ''/p/t.js'' ''X''
       = Some (Inr True, ex_state\<lparr>configShouldMockModuleNames := [''X'' \<mapsto> True]\<rparr>)
   \<and> getNormalizedModuleID cycle_world
         (res_path (ex_resource ''T'' ''JS'' ''/p/t.js'' [''nothere'']))
         (originOf (ex_resource ''T'' ''JS'' ''/p/t.js'' [''nothere'']) ''nothere'')
       = Some (Inl (CannotFindModule ''nothere'' ''/p/t.js''))
   \<and> dependencyPaths_loop cycle_world (ex_resource ''T'' ''JS'' ''/p/t.js'' [''nothere''])
         [''nothere''] = Some []"
proof -
  have a: "getNormalizedModuleID cycle_world ''/p/t.js'' ''nothere''
             = Some (Inl (CannotFindModule ''nothere'' ''/p/t.js''))"
    "getResource cycle_world ''JSMock'' ''nothere'' = None"
    "res_path (ex_resource ''T'' ''JS'' ''/p/t.js'' [''nothere'']) = ''/p/t.js''"
    "originOf (ex_resource ''T'' ''JS'' ''/p/t.js'' [''nothere'']) ''nothere'' = ''nothere''"
    by (simp_all add: cycle_world_def originOf_def ex_simps)
  have b: "getNormalizedModuleID mockonly_unmock_world ''/p/t.js'' ''X''
             = Some (Inr ''user:null:/p/__mocks__/X.js'')"
    "moduleNameToPath mockonly_unmock_world ''/p/t.js'' ''X''
       = Some (Inl (CannotFindModule ''X'' ''/p/t.js''))"
    "explicitShouldMock ex_state ''user:null:/p/__mocks__/X.js'' = None"
    "\<not> isCore mockonly_unmock_world ''X''" "shouldAutoMock ex_state"
    "configShouldMockModuleNames ex_state ''X'' = None"
    "unmockListRegExps mockonly_unmock_world \<noteq> []"
    by (simp_all add: mockonly_unmock_world_def mockonly_world_def ex_state_def ex_simps)
  have c: "(configShouldMockModuleNames ex_state)(''X'' \<mapsto> True) = [''X'' \<mapsto> True]"
    by (simp add: ex_state_def)
  from resolution_failure
         [where w = cycle_world and currPath = "''/p/t.js''" and n = "''nothere''"
            and e = "CannotFindModule ''nothere'' ''/p/t.js''" and s = ex_state
            and resource = "ex_resource ''T'' ''JS'' ''/p/t.js'' [''nothere'']"
            and rest = "[]"]
       resolution_failure
         [where w = mockonly_unmock_world and currPath = "''/p/t.js''" and n = "''X''"
            and e = "CannotFindModule ''X'' ''/p/t.js''" and s = ex_state
            and moduleID = "''user:null:/p/__mocks__/X.js''"]
       a b c
  show ?thesis by simp
qed

text \<open>
  C8 as stated fails. The path-form name \<open>./missing.css\<close> has a manual mock (the
  stub that the name mapping supplies), and its resolution fails with a
  module-not-found error, which the mock policy raises too. The same error is
  swallowed when the dependencies of \<open>Page\<close> are collected: the name is left out.
\<close>

theorem resolution_failure_counterexample:
  "map_option res_id (getResource css_world ''JSMock'' ''./missing.css'') = Some ''CSSStub''
   \<and> getNormalizedModuleID css_world ''/p/t.js'' ''./missing.css''
       = Some (Inl (CannotFindModule ''./missing.css'' ''/p/t.js''))
   \<and> shouldMock css_world ex_state ''/p/t.js'' ''./missing.css''
       = Some (Inl (CannotFindModule ''./missing.css'' ''/p/t.js''), ex_state)
   \<and> getNormalizedModuleID css_world ''/p/Page.js'' ''./missing.css''
       = Some (Inl (CannotFindModule ''./missing.css'' ''/p/Page.js''))
   \<and> getDependenciesFromPath css_world ''/p/Page.js'' = Some (Inr [Some ''/p/CSSStub.js''])"
  by (simp add: shouldMock_def getDependenciesFromPath_def getDependencyPathsFromResource_def
        getRealPathFromNormalizedModuleID_def originOf_def css_world_def css_pattern_def ex_simps)

subsection \<open>Every call satisfies a stepwise relation\<close>

lemma discard_Some:
  "discard x = Some (r, s') \<Longrightarrow> \<exists>r'. x = Some (r', s') \<and> isl r' = isl r"
  by (auto simp: discard_def split: option.splits sum.splits prod.splits)

lemma stepwiseD:
  assumes "stepwise G"
  shows "\<forall>s b. G s b s"
    and "\<forall>s s1 s2 b. G s False s1 \<longrightarrow> G s1 b s2 \<longrightarrow> G s b s2"
    and "\<forall>w s c n r s'. shouldMock w s c n = Some (r, s') \<longrightarrow> G s (isl r) s'"
    and "\<forall>w s c n v r s'. setExplicitShouldMock w s c n v = Some (r, s') \<longrightarrow> G s (isl r) s'"
    and "\<forall>w s c n v r s'. jest_setMock w s c n v = Some (r, s') \<longrightarrow> G s (isl r) s'"
    and "\<forall>s. G s False (jest_autoMockOff s)"
    and "\<forall>s. G s False (jest_autoMockOn s)"
    and "\<forall>s. G s False (resetModuleRegistry s)"
    and "\<forall>s a k v. G s False (setProp s a k v)"
    and "\<forall>s m ps. G s False (assignExports s m ps)"
    and "\<forall>w s f c b. G s b (snd (collectCoverageFor w s f c))"
    and "\<forall>s m f. G s True (enterModule s m f)"
    and "\<forall>s m f s3. G (enterModule s m f) True s3 \<longrightarrow> G s True s3"
    and "\<forall>s m f s3. G (enterModule s m f) False s3 \<longrightarrow>
           G s False (leaveModule s3 (currentlyExecutingModulePath s)
                        (isCurrentlyExecutingManualMock s))"
    and "\<forall>s p b. moduleRegistry s p = None \<longrightarrow> G s b (snd (registerModule s p))"
    and "\<forall>s m v. G s False (setExports s m v)"
    and "\<forall>s p. moduleRegistry s p = None \<longrightarrow>
           G s False (logExecution ByRequireModule (snd (registerModule s p)) p)"
    and "\<forall>s p. G s False (logExecution ByRequireMock (snd (newModuleObj s p)) p)"
    and "\<forall>s p v. G s False (setMockRegistry s p v)"
    and "\<forall>s ps. G s False (snd (newObject s ps))"
    and "\<forall>s p md. G s False (setMockMetaData s p md)"
    and "\<forall>s s2. G (isolateRegistries s) True s2 \<longrightarrow> G s True s2"
    and "\<forall>s s2 b. G (isolateRegistries s) False s2 \<longrightarrow> G s b (restoreRegistries s s2)"
  using assms unfolding stepwise_def by - (elim conjE, assumption)+

lemmas stepwise_refl = stepwiseD(1) [rule_format]

lemmas stepwise_seq = stepwiseD(2) [rule_format]

lemmas stepwise_shouldMock = stepwiseD(3) [rule_format]

lemmas stepwise_setExplicit = stepwiseD(4) [rule_format]

lemmas stepwise_setMock = stepwiseD(5) [rule_format]

lemmas stepwise_autoMockOff = stepwiseD(6) [rule_format]

lemmas stepwise_autoMockOn = stepwiseD(7) [rule_format]

lemmas stepwise_reset = stepwiseD(8) [rule_format]

lemmas stepwise_setProp = stepwiseD(9) [rule_format]

lemmas stepwise_assignExports = stepwiseD(10) [rule_format]

lemmas stepwise_coverage = stepwiseD(11) [rule_format]

lemmas stepwise_enter = stepwiseD(12) [rule_format]

lemmas stepwise_throw_inside = stepwiseD(13) [rule_format]

lemmas stepwise_leave = stepwiseD(14) [rule_format]

lemmas stepwise_register = stepwiseD(15) [rule_format]

lemmas stepwise_setExports = stepwiseD(16) [rule_format]

lemmas stepwise_logReal = stepwiseD(17) [rule_format]

lemmas stepwise_logMock = stepwiseD(18) [rule_format]

lemmas stepwise_setMockRegistry = stepwiseD(19) [rule_format]

lemmas stepwise_newObject = stepwiseD(20) [rule_format]

lemmas stepwise_setMockMetaData = stepwiseD(21) [rule_format]

lemmas stepwise_throw_isolated = stepwiseD(22) [rule_format]

lemmas stepwise_restore = stepwiseD(23) [rule_format]

lemmas ops_sat_requireModuleOrMock =
  ops_sat_def [THEN iffD1, rule_format, THEN conjunct1, rule_format]

lemmas ops_sat_requireModule =
  ops_sat_def [THEN iffD1, rule_format, THEN conjunct2, THEN conjunct1, rule_format]

lemmas ops_sat_requireMock =
  ops_sat_def [THEN iffD1, rule_format, THEN conjunct2, THEN conjunct2, THEN conjunct1,
    rule_format]

lemmas ops_sat_generateMock =
  ops_sat_def [THEN iffD1, rule_format, THEN conjunct2, THEN conjunct2, THEN conjunct2,
    rule_format]

lemma exec_cmd_sat:
  assumes "stepwise G" and "ops_sat G L"
    and "exec_cmd L w m exports filename s c = Some (r, s')"
  shows "G s (isl r) s'"
proof (cases c)
  case (Require x)
  with assms(3) obtain r' where
    a: "requireModuleOrMock_op L s filename x = Some (r', s')" "isl r' = isl r"
    by (auto simp: exec_cmd_def constructBoundRequire_def dest!: discard_Some)
  from ops_sat_requireModuleOrMock [OF assms(2) a(1)] a(2) show ?thesis by simp
next
  case (RequireActual x)
  with assms(3) obtain r' where
    a: "requireModule_op L s filename x = Some (r', s')" "isl r' = isl r"
    by (auto simp: exec_cmd_def constructBoundRequire_def dest!: discard_Some)
  from ops_sat_requireModule [OF assms(2) a(1)] a(2) show ?thesis by simp
next
  case (RequireMock x)
  with assms(3) obtain r' where
    a: "requireMock_op L s filename x = Some (r', s')" "isl r' = isl r"
    by (auto simp: exec_cmd_def constructBoundRequire_def dest!: discard_Some)
  from ops_sat_requireMock [OF assms(2) a(1)] a(2) show ?thesis by simp
next
  case (SetExportsProp k v)
  with assms(3) show ?thesis
    using stepwise_setProp [OF assms(1)] stepwise_refl [OF assms(1)]
    by (auto simp: exec_cmd_def split: val.splits)
next
  case (AssignModuleExports ps)
  with assms(3) show ?thesis
    using stepwise_assignExports [OF assms(1)] by (auto simp: exec_cmd_def)
next
  case (JestMock x)
  with assms(3) show ?thesis
    using stepwise_setExplicit [OF assms(1)] by (auto simp: exec_cmd_def jest_mock_def)
next
  case (JestDontMock x)
  with assms(3) show ?thesis
    using stepwise_setExplicit [OF assms(1)] by (auto simp: exec_cmd_def jest_dontMock_def)
next
  case (JestSetMock x v)
  with assms(3) show ?thesis
    using stepwise_setMock [OF assms(1)] by (auto simp: exec_cmd_def)
next
  case JestAutoMockOff
  with assms(3) show ?thesis
    using stepwise_autoMockOff [OF assms(1)] by (auto simp: exec_cmd_def)
next
  case JestAutoMockOn
  with assms(3) show ?thesis
    using stepwise_autoMockOn [OF assms(1)] by (auto simp: exec_cmd_def)
next
  case JestResetModuleRegistry
  with assms(3) show ?thesis
    using stepwise_reset [OF assms(1)] by (auto simp: exec_cmd_def)
next
  case (JestGenMockFromModule x)
  with assms(3) obtain r' where
    a: "generateMock_op L s (currentlyExecutingModulePath s) x = Some (r', s')" "isl r' = isl r"
    by (auto simp: exec_cmd_def dest!: discard_Some)
  from ops_sat_generateMock [OF assms(2) a(1)] a(2) show ?thesis by simp
next
  case (ThrowError msg)
  with assms(3) show ?thesis
    using stepwise_refl [OF assms(1)] by (auto simp: exec_cmd_def)
qed

lemma exec_cmds_sat:
  assumes "stepwise G" and "ops_sat G L"
  shows "exec_cmds L w m exports filename s cs = Some (r, s') \<Longrightarrow> G s (isl r) s'"
proof (induction cs arbitrary: s)
  case Nil
  then show ?case using stepwise_refl [OF assms(1)] by auto
next
  case (Cons c cs)
  show ?case
  proof (cases "exec_cmd L w m exports filename s c")
    case None
    with Cons.prems show ?thesis by simp
  next
    case (Some out)
    obtain r1 s1 where out: "out = (r1, s1)" by (cases out)
    from Some out have g1: "G s (isl r1) s1"
      using exec_cmd_sat [OF assms] by simp
    show ?thesis
    proof (cases r1)
      case (Inl e)
      with Some out Cons.prems g1 show ?thesis by auto
    next
      case (Inr u)
      with Some out Cons.prems have "exec_cmds L w m exports filename s1 cs = Some (r, s')"
        by simp
      from Cons.IH [OF this] g1 Inr show ?thesis
        using stepwise_seq [OF assms(1)] by auto
    qed
  qed
qed

lemma execModule_sat:
  assumes "stepwise G" and "ops_sat G L" and "execModule L w s m = Some (r, s')"
  shows "G s (isl r) s'"
proof (cases "environment_global s")
  case None
  with assms(3) show ?thesis using stepwise_refl [OF assms(1)] by (auto simp: execModule_def)
next
  case env: (Some g)
  let ?f = "mo_filename (moduleObjs s m)"
  show ?thesis
  proof (cases "transform w ?f")
    case None
    with env assms(3) show ?thesis
      using stepwise_refl [OF assms(1)] by (auto simp: execModule_def Let_def)
  next
    case (Some content)
    obtain c1 s1 where c: "collectCoverageFor w s ?f content = (c1, s1)"
      by (cases "collectCoverageFor w s ?f content")
    have g1: "G s b s1" for b
      using stepwise_coverage [OF assms(1), where w = w and s = s and f = ?f and c = content] c
      by simp
    show ?thesis
    proof (cases c1)
      case (Inl e)
      with env Some c assms(3) have "r = Inl e" "s' = s1"
        by (auto simp: execModule_def Let_def)
      with g1 show ?thesis by simp
    next
      case cov: (Inr moduleContent)
      have "G s1 (isl r) s'"
      proof (cases "runSourceText w (wrapper_text moduleContent) ?f")
        case None
        with env Some c cov assms(3) show ?thesis
          using stepwise_enter [OF assms(1)] by (auto simp: execModule_def Let_def)
      next
        case body: (Some wrapperFunc)
        show ?thesis
        proof (cases "exec_cmds L w m (mo_exports (moduleObjs (enterModule s1 m ?f) m)) ?f
                        (enterModule s1 m ?f) wrapperFunc")
          case None
          with env Some c cov body assms(3) show ?thesis by (simp add: execModule_def Let_def)
        next
          case run: (Some out)
          obtain r3 s3 where out: "out = (r3, s3)" by (cases out)
          from run out have g3: "G (enterModule s1 m ?f) (isl r3) s3"
            using exec_cmds_sat [OF assms(1,2)] by simp
          show ?thesis
          proof (cases r3)
            case (Inl e)
            with env Some c cov body run out assms(3) have "r = Inl e" "s' = s3"
              by (auto simp: execModule_def Let_def)
            with g3 Inl show ?thesis using stepwise_throw_inside [OF assms(1)] by auto
          next
            case (Inr u)
            with env Some c cov body run out assms(3) have "r = Inr ()"
              "s' = leaveModule s3 (currentlyExecutingModulePath s1)
                      (isCurrentlyExecutingManualMock s1)"
              by (auto simp: execModule_def Let_def)
            with g3 Inr show ?thesis using stepwise_leave [OF assms(1)] by auto
          qed
        qed
      qed
      with g1 [of False] show ?thesis by (rule stepwise_seq [OF assms(1)])
    qed
  qed
qed


lemma requireModule_body_sat:
  assumes "stepwise G" and "ops_sat G L"
    and "requireModule_body L w s currPath moduleName = Some (r, s')"
  shows "G s (isl r) s'"
proof (cases "requireModule_path w s currPath moduleName")
  case None
  with assms(3) show ?thesis by (simp add: requireModule_body_def)
next
  case (Some choice)
  show ?thesis
  proof (cases choice)
    case (Inl e)
    with Some assms(3) show ?thesis
      using stepwise_refl [OF assms(1)] by (auto simp: requireModule_body_def)
  next
    case (Inr target)
    show ?thesis
    proof (cases target)
      case (Inl host)
      with Some Inr assms(3) show ?thesis
        using stepwise_refl [OF assms(1)] by (auto simp: requireModule_body_def)
    next
      case path: (Inr modulePath)
      show ?thesis
      proof (cases "moduleRegistry s modulePath")
        case hit: (Some m)
        with Some Inr path assms(3) show ?thesis
          using stepwise_refl [OF assms(1)] by (auto simp: requireModule_body_def)
      next
        case miss: None
        obtain m s2 where reg: "registerModule s modulePath = (m, s2)"
          by (cases "registerModule s modulePath")
        have g2: "G s b s2" for b
          using stepwise_register [OF assms(1) miss, of b] reg by simp
        show ?thesis
        proof (cases "path_extname w modulePath = ''.json'' \<or> path_extname w modulePath = ''.node''")
          case True
          with Some Inr path miss reg assms(3)
          have "(isl r \<and> s' = s2) \<or> (\<not> isl r \<and> (\<exists>v. s' = setExports s2 m v))"
            by (auto simp: requireModule_body_def split: if_splits option.splits)
          then show ?thesis
            using g2 stepwise_seq [OF assms(1) g2 [of False] stepwise_setExports [OF assms(1)]]
            by auto
        next
          case False
          let ?s2 = "logExecution ByRequireModule s2 modulePath"
          have gl: "G s False ?s2"
            using stepwise_logReal [OF assms(1) miss] reg by simp
          from False Some Inr path miss reg assms(3)
          obtain r3 where run: "execModule L w ?s2 m = Some (r3, s')" and r3: "isl r3 = isl r"
            by (auto simp: requireModule_body_def split: option.splits sum.splits prod.splits)
          from execModule_sat [OF assms(1,2) run] r3 have "G ?s2 (isl r) s'" by simp
          with gl show ?thesis by (rule stepwise_seq [OF assms(1)])
        qed
      qed
    qed
  qed
qed

lemma generateFromCache_sat:
  assumes "stepwise G" and "generateFromCache w s modulePath = Some (r, s')"
  shows "G s (isl r) s'"
proof -
  let ?ps = "generateFromMetadata w (case mockMetaDataCache s modulePath of
                                       None \<Rightarrow> None | Some md \<Rightarrow> md)"
  from assms(2) have "\<not> isl r" "s' = snd (newObject s ?ps)"
    by (auto simp: generateFromCache_def Let_def split: prod.splits)
  with stepwise_newObject [OF assms(1), of s ?ps] show ?thesis by simp
qed

lemma generateMock_body_sat:
  assumes "stepwise G" and "ops_sat G L"
    and "generateMock_body L w s currPath moduleName = Some (r, s')"
  shows "G s (isl r) s'"
proof (cases "moduleNameToPath w currPath moduleName")
  case None
  with assms(3) show ?thesis by (simp add: generateMock_body_def)
next
  case (Some res)
  show ?thesis
  proof (cases res)
    case (Inl e)
    with Some assms(3) show ?thesis
      using stepwise_refl [OF assms(1)] by (auto simp: generateMock_body_def)
  next
    case (Inr modulePath)
    show ?thesis
    proof (cases "mockMetaDataCache s modulePath")
      case cached: (Some md)
      with Some Inr assms(3) have "generateFromCache w s modulePath = Some (r, s')"
        by (simp add: generateMock_body_def)
      then show ?thesis by (rule generateFromCache_sat [OF assms(1)])
    next
      case None
      let ?s0 = "setMockMetaData s modulePath (getMetadata w (ObjRef (nextAddress s)) (Some []))"
      have g0: "G s False ?s0" by (rule stepwise_setMockMetaData [OF assms(1)])
      have "G ?s0 (isl r) s'"
      proof (cases "requireModule_op L (isolateRegistries ?s0) currPath moduleName")
        case none: None
        with Some Inr None assms(3) show ?thesis by (simp add: generateMock_body_def Let_def)
      next
        case run: (Some out)
        obtain r2 s2 where out: "out = (r2, s2)" by (cases out)
        from ops_sat_requireModule [OF assms(2)] run out
        have g2: "G (isolateRegistries ?s0) (isl r2) s2" by simp
        show ?thesis
        proof (cases r2)
          case (Inl e)
          with Some Inr None run out assms(3) have "r = Inl e" "s' = s2"
            by (auto simp: generateMock_body_def Let_def)
          with g2 Inl show ?thesis using stepwise_throw_isolated [OF assms(1)] by auto
        next
          case exports: (Inr moduleExports)
          let ?s3 = "restoreRegistries ?s0 s2"
          have g3: "G ?s0 b ?s3" for b
            using g2 exports stepwise_restore [OF assms(1)] by auto
          show ?thesis
          proof (cases "getMetadata w moduleExports (contents ?s3 moduleExports)")
            case none: None
            with Some Inr None run out exports assms(3) have "isl r" "s' = ?s3"
              by (auto simp: generateMock_body_def Let_def)
            with g3 [of True] show ?thesis by simp
          next
            case md: (Some mockMetadata)
            let ?s4 = "setMockMetaData ?s3 modulePath (Some mockMetadata)"
            from Some Inr None run out exports md assms(3)
            have "generateFromCache w ?s4 modulePath = Some (r, s')"
              by (simp add: generateMock_body_def Let_def)
            from generateFromCache_sat [OF assms(1) this]
            have "G ?s4 (isl r) s'" .
            with stepwise_setMockMetaData [OF assms(1)]
            have "G ?s3 (isl r) s'" by (rule stepwise_seq [OF assms(1)])
            with g3 [of False] show ?thesis by (rule stepwise_seq [OF assms(1)])
          qed
        qed
      qed
      with g0 show ?thesis by (rule stepwise_seq [OF assms(1)])
    qed
  qed
qed

lemma requireMock_body_sat:
  assumes "stepwise G" and "ops_sat G L"
    and "requireMock_body L w s currPath moduleName = Some (r, s')"
  shows "G s (isl r) s'"
proof (cases "getNormalizedModuleID w currPath moduleName")
  case None
  with assms(3) show ?thesis by (simp add: requireMock_body_def)
next
  case (Some res)
  show ?thesis
  proof (cases res)
    case (Inl e)
    with Some assms(3) show ?thesis
      using stepwise_refl [OF assms(1)] by (auto simp: requireMock_body_def)
  next
    case (Inr moduleID)
    show ?thesis
    proof (cases "explicitlySetMocks s moduleID")
      case slot: (Some v)
      with Some Inr assms(3) show ?thesis
        using stepwise_refl [OF assms(1)] by (auto simp: requireMock_body_def)
    next
      case None
      show ?thesis
      proof (cases "mockPathFor w currPath moduleName")
        case none: None
        with Some Inr None assms(3) show ?thesis by (simp add: requireMock_body_def)
      next
        case path: (Some choice)
        show ?thesis
        proof (cases choice)
          case (Inl e)
          with Some Inr None path assms(3) show ?thesis
            using stepwise_refl [OF assms(1)] by (auto simp: requireMock_body_def)
        next
          case target: (Inr mp)
          obtain manualMockResource modulePath where mp: "mp = (manualMockResource, modulePath)"
            by (cases mp)
          show ?thesis
          proof (cases "mockRegistry s modulePath")
            case hit: (Some v)
            with Some Inr None path target mp assms(3) show ?thesis
              using stepwise_refl [OF assms(1)] by (auto simp: requireMock_body_def)
          next
            case miss: None
            show ?thesis
            proof (cases manualMockResource)
              case True
              obtain m s1 where new: "newModuleObj s modulePath = (m, s1)"
                by (cases "newModuleObj s modulePath")
              let ?s2 = "logExecution ByRequireMock s1 modulePath"
              have gl: "G s False ?s2"
                using stepwise_logMock [OF assms(1), of s modulePath] new by simp
              have "G ?s2 (isl r) s'"
              proof (cases "execModule L w ?s2 m")
                case none: None
                with Some Inr None path target mp miss True new assms(3) show ?thesis
                  by (simp add: requireMock_body_def)
              next
                case run: (Some out)
                obtain r3 s3 where out: "out = (r3, s3)" by (cases out)
                from execModule_sat [OF assms(1,2)] run out
                have g3: "G ?s2 (isl r3) s3" by simp
                show ?thesis
                proof (cases r3)
                  case (Inl e)
                  with Some Inr None path target mp miss True new run out assms(3)
                  have "r = Inl e" "s' = s3" by (auto simp: requireMock_body_def)
                  with g3 Inl show ?thesis by simp
                next
                  case u: (Inr u)
                  with Some Inr None path target mp miss True new run out assms(3)
                  have "\<not> isl r"
                    "s' = setMockRegistry s3 modulePath (mo_exports (moduleObjs s3 m))"
                    by (auto simp: requireMock_body_def)
                  with g3 u show ?thesis
                    using stepwise_seq [OF assms(1) _ stepwise_setMockRegistry [OF assms(1)]]
                    by auto
                qed
              qed
              with gl show ?thesis by (rule stepwise_seq [OF assms(1)])
            next
              case False
              show ?thesis
              proof (cases "generateMock_op L s currPath moduleName")
                case none: None
                with Some Inr None path target mp miss False assms(3) show ?thesis
                  by (simp add: requireMock_body_def)
              next
                case run: (Some out)
                obtain r3 s3 where out: "out = (r3, s3)" by (cases out)
                from ops_sat_generateMock [OF assms(2)] run out
                have g3: "G s (isl r3) s3" by simp
                show ?thesis
                proof (cases r3)
                  case (Inl e)
                  with Some Inr None path target mp miss False run out assms(3)
                  have "r = Inl e" "s' = s3" by (auto simp: requireMock_body_def)
                  with g3 Inl show ?thesis by simp
                next
                  case v: (Inr v)
                  with Some Inr None path target mp miss False run out assms(3)
                  have "\<not> isl r" "s' = setMockRegistry s3 modulePath v"
                    by (auto simp: requireMock_body_def)
                  with g3 v show ?thesis
                    using stepwise_seq [OF assms(1) _ stepwise_setMockRegistry [OF assms(1)]]
                    by auto
                qed
              qed
            qed
          qed
        qed
      qed
    qed
  qed
qed

lemma requireModuleOrMock_body_sat:
  assumes "stepwise G" and "ops_sat G L"
    and "requireModuleOrMock_body L w s currPath moduleName = Some (r, s')"
  shows "G s (isl r) s'"
proof (cases "shouldMock w s currPath moduleName")
  case None
  with assms(3) show ?thesis by (simp add: requireModuleOrMock_body_def)
next
  case (Some out)
  obtain d s1 where out: "out = (d, s1)" by (cases out)
  from stepwise_shouldMock [OF assms(1)] Some out have g1: "G s (isl d) s1" by simp
  show ?thesis
  proof (cases d)
    case (Inl e)
    with Some out assms(3) have "r = Inl e" "s' = s1"
      by (auto simp: requireModuleOrMock_body_def)
    with g1 Inl show ?thesis by simp
  next
    case (Inr b)
    have "G s1 (isl r) s'"
    proof (cases b)
      case True
      with Some out Inr assms(3) have "requireMock_op L s1 currPath moduleName = Some (r, s')"
        by (simp add: requireModuleOrMock_body_def)
      then show ?thesis by (rule ops_sat_requireMock [OF assms(2)])
    next
      case False
      with Some out Inr assms(3) have "requireModule_op L s1 currPath moduleName = Some (r, s')"
        by (simp add: requireModuleOrMock_body_def)
      then show ?thesis by (rule ops_sat_requireModule [OF assms(2)])
    qed
    with g1 Inr show ?thesis using stepwise_seq [OF assms(1)] by auto
  qed
qed

lemma loader_sat:
  assumes "stepwise G"
  shows "ops_sat G (loader n w)"
proof (induction n)
  case 0
  show ?case by (simp add: ops_sat_def)
next
  case (Suc n)
  show ?case
    unfolding ops_sat_def
    using requireModuleOrMock_body_sat [OF assms Suc] requireModule_body_sat [OF assms Suc]
      requireMock_body_sat [OF assms Suc] generateMock_body_sat [OF assms Suc]
    by simp
qed

subsection \<open>The real registry and the executions\<close>

lemma same_reg_keeps: "same_reg s s' \<Longrightarrow> keeps s b s'"
  by (simp add: same_reg_def keeps_def registry_frame_def registry_inv_def)

lemma keeps_same_regL: "same_reg s t \<Longrightarrow> keeps t b s' \<Longrightarrow> keeps s b' s'"
  by (simp add: same_reg_def keeps_def registry_frame_def registry_inv_def)

lemma keeps_same_regR: "keeps s b t \<Longrightarrow> same_reg t s' \<Longrightarrow> keeps s b' s'"
  by (simp add: same_reg_def keeps_def registry_frame_def registry_inv_def)

lemma registry_frame_trans:
  assumes "registry_frame s s1" and "registry_frame s1 s2"
  shows "registry_frame s s2"
proof -
  have "e \<in> set (real_log s) \<or> fst e = generation s \<or> nextGeneration s \<le> fst e"
    if "e \<in> set (real_log s2)" for e
  proof -
    from that assms(2) consider "e \<in> set (real_log s1)" | "fst e = generation s1"
      | "nextGeneration s1 \<le> fst e"
      by (auto simp: registry_frame_def)
    then show ?thesis
      using assms(1) by cases (auto simp: registry_frame_def)
  qed
  with assms show ?thesis
    by (auto simp: registry_frame_def)
qed

lemma keeps_trans: "keeps s b s1 \<Longrightarrow> keeps s1 b' s2 \<Longrightarrow> keeps s b'' s2"
  using registry_frame_trans by (auto simp: keeps_def)

lemma shouldMock_same_reg:
  "shouldMock w s currPath moduleName = Some (r, s') \<Longrightarrow> same_reg s s'"
  by (auto simp: shouldMock_def same_reg_def real_log_def Let_def
        split: option.splits sum.splits if_splits)

lemma setExplicitShouldMock_same_reg:
  "setExplicitShouldMock w s currPath moduleName b = Some (r, s') \<Longrightarrow> same_reg s s'"
  by (auto simp: setExplicitShouldMock_def same_reg_def real_log_def
        split: option.splits sum.splits)

lemma jest_setMock_same_reg:
  "jest_setMock w s currPath moduleName v = Some (r, s') \<Longrightarrow> same_reg s s'"
  by (auto simp: jest_setMock_def same_reg_def real_log_def split: option.splits sum.splits)

lemma same_reg_steps:
  "same_reg s (jest_autoMockOff s)"
  "same_reg s (jest_autoMockOn s)"
  "same_reg s (setProp s a k v)"
  "same_reg s (assignExports s m ps)"
  "same_reg s (s\<lparr>coverageCollectors := cc\<rparr>)"
  "same_reg s (enterModule s m filename)"
  "same_reg s (leaveModule s x y)"
  "same_reg s (setExports s m v)"
  "same_reg s (logExecution ByRequireMock (snd (newModuleObj s modulePath)) modulePath)"
  "same_reg s (setMockRegistry s modulePath v)"
  "same_reg s (snd (newObject s ps))"
  "same_reg s (setMockMetaData s modulePath md)"
  by (simp_all add: same_reg_def real_log_def jest_autoMockOff_def jest_autoMockOn_def
        setProp_def assignExports_def enterModule_def leaveModule_def
        setExports_def logExecution_def newModuleObj_def setMockRegistry_def newObject_def
        setMockMetaData_def Let_def split: option.splits)

lemma collectCoverageFor_same_reg:
  "same_reg s (snd (collectCoverageFor w s filename moduleContent))"
  using collectCoverageFor_state [of w s filename moduleContent]
  by (auto simp: same_reg_def real_log_def)

lemma fresh_registries_keeps:
  assumes "real_log s' = real_log s" and "generation s' = nextGeneration s"
    and "nextGeneration s' = Suc (nextGeneration s)"
  shows "keeps s b s'"
proof -
  have f: "registry_frame s s'"
    using assms by (simp add: registry_frame_def)
  have "registry_inv s'" if i: "registry_inv s"
  proof -
    have "(nextGeneration s, p) \<notin> set (real_log s)" for p
      using i by (fastforce simp: registry_inv_def)
    moreover have "\<forall>e \<in> set (real_log s). fst e < Suc (nextGeneration s)"
      using i by (fastforce simp: registry_inv_def)
    moreover have "distinct (real_log s)"
      using i by (simp add: registry_inv_def)
    ultimately show ?thesis
      using assms by (simp add: registry_inv_def)
  qed
  with f show ?thesis by (simp add: keeps_def)
qed

lemma resetModuleRegistry_keeps: "keeps s b (resetModuleRegistry s)"
  by (rule fresh_registries_keeps) (simp_all add: resetModuleRegistry_def real_log_def)

lemma isolateRegistries_keeps: "keeps s b (isolateRegistries s)"
  by (rule fresh_registries_keeps) (simp_all add: isolateRegistries_def real_log_def)

lemma registerModule_keeps: "keeps s b (snd (registerModule s p))"
proof -
  let ?s2 = "snd (registerModule s p)"
  have v: "real_log ?s2 = real_log s" "generation ?s2 = generation s"
    "nextGeneration ?s2 = nextGeneration s"
    "\<And>q. moduleRegistry s q \<noteq> None \<Longrightarrow> moduleRegistry ?s2 q \<noteq> None"
    by (simp_all add: registerModule_def newModuleObj_def real_log_def Let_def)
  then show ?thesis
    by (simp add: keeps_def registry_frame_def registry_inv_def)
qed

lemma logReal_keeps:
  assumes "moduleRegistry s p = None"
  shows "keeps s b (logExecution ByRequireModule (snd (registerModule s p)) p)"
proof -
  let ?s2 = "logExecution ByRequireModule (snd (registerModule s p)) p"
  have v: "real_log ?s2 = real_log s @ [(generation s, p)]" "generation ?s2 = generation s"
    "nextGeneration ?s2 = nextGeneration s"
    "moduleRegistry ?s2 p \<noteq> None"
    "\<And>q. moduleRegistry s q \<noteq> None \<Longrightarrow> moduleRegistry ?s2 q \<noteq> None"
    by (simp_all add: logExecution_def registerModule_def newModuleObj_def real_log_def Let_def)
  have f: "registry_frame s ?s2"
    using v by (auto simp: registry_frame_def)
  have "registry_inv ?s2" if i: "registry_inv s"
  proof -
    have "(generation s, p) \<notin> set (real_log s)"
      using i assms by (auto simp: registry_inv_def)
    with i v show ?thesis
      by (auto simp: registry_inv_def)
  qed
  with f show ?thesis by (simp add: keeps_def)
qed

lemma restoreRegistries_keeps:
  assumes "keeps (isolateRegistries s) b s2"
  shows "keeps s b' (restoreRegistries s s2)"
proof -
  let ?s1 = "isolateRegistries s" and ?s3 = "restoreRegistries s s2"
  have v1: "real_log ?s1 = real_log s" "generation ?s1 = nextGeneration s"
    "nextGeneration ?s1 = Suc (nextGeneration s)"
    by (simp_all add: isolateRegistries_def real_log_def)
  have v3: "real_log ?s3 = real_log s2" "generation ?s3 = generation s"
    "nextGeneration ?s3 = nextGeneration s2" "moduleRegistry ?s3 = moduleRegistry s"
    by (simp_all add: restoreRegistries_def real_log_def)
  from assms have fr: "registry_frame ?s1 s2" by (simp add: keeps_def)
  have new: "e \<in> set (real_log s) \<or> nextGeneration s \<le> fst e" if "e \<in> set (real_log s2)" for e
    using fr that v1 by (fastforce simp: registry_frame_def)
  have f: "registry_frame s ?s3"
    using fr v1 v3 new by (auto simp: registry_frame_def)
  have "registry_inv ?s3" if i: "registry_inv s"
  proof -
    from i isolateRegistries_keeps [of s b] have "registry_inv ?s1" by (simp add: keeps_def)
    with assms have i2: "registry_inv s2" by (simp add: keeps_def)
    have reg: "moduleRegistry s q \<noteq> None" if "(generation s, q) \<in> set (real_log s2)" for q
    proof -
      from new [OF that] i have "(generation s, q) \<in> set (real_log s)"
        by (auto simp: registry_inv_def)
      with i show ?thesis by (simp add: registry_inv_def)
    qed
    have "generation s < nextGeneration s2"
      using i fr v1 by (simp add: registry_inv_def registry_frame_def)
    with i2 reg v3 show ?thesis
      by (simp add: registry_inv_def)
  qed
  with f show ?thesis by (simp add: keeps_def)
qed

lemma stepwise_keeps: "stepwise keeps"
  unfolding stepwise_def
proof (intro conjI allI impI)
  fix s s1 s2 :: state and b :: bool
  assume "keeps s False s1" "keeps s1 b s2"
  then show "keeps s b s2" by (rule keeps_trans)
next
  fix s s2 :: state
  assume "keeps (isolateRegistries s) True s2"
  with isolateRegistries_keeps [of s False] show "keeps s True s2" by (rule keeps_trans)
next
  fix s s2 :: state and b :: bool
  assume "keeps (isolateRegistries s) False s2"
  then show "keeps s b (restoreRegistries s s2)" by (rule restoreRegistries_keeps)
next
  fix s s3 :: state and m f
  assume "keeps (enterModule s m f) True s3"
  with same_reg_steps(6) show "keeps s True s3" by (rule keeps_same_regL)
next
  fix s s3 :: state and m f
  assume "keeps (enterModule s m f) False s3"
  with same_reg_steps(6) have "keeps s False s3" by (rule keeps_same_regL)
  then show "keeps s False (leaveModule s3 (currentlyExecutingModulePath s)
                              (isCurrentlyExecutingManualMock s))"
    using same_reg_steps(7) by (rule keeps_same_regR)
qed (auto intro: same_reg_keeps shouldMock_same_reg setExplicitShouldMock_same_reg
       jest_setMock_same_reg same_reg_steps collectCoverageFor_same_reg
       resetModuleRegistry_keeps registerModule_keeps logReal_keeps simp: same_reg_def)

lemma registry_hit:
  assumes "requireModule_path w s currPath moduleName = Some (Inr (Inr modulePath))"
    and "moduleRegistry s modulePath = Some m"
  shows "requireModule (Suc n) w s currPath moduleName = Some (Inr (mo_exports (moduleObjs s m)), s)"
  using assms by (simp add: requireModule_def requireModule_body_def)

lemma registry_miss:
  assumes "requireModule_path w s currPath moduleName = Some (Inr (Inr modulePath))"
    and "moduleRegistry s modulePath = None"
    and "path_extname w modulePath \<noteq> ''.json''" and "path_extname w modulePath \<noteq> ''.node''"
  shows "requireModule (Suc n) w s currPath moduleName
         = (case execModule (loader n w) w
                   (logExecution ByRequireModule (snd (registerModule s modulePath)) modulePath)
                   (fst (registerModule s modulePath)) of
              None \<Rightarrow> None
            | Some (Inl e, s3) \<Rightarrow> Some (Inl e, s3)
            | Some (Inr u, s3) \<Rightarrow>
                Some (Inr (mo_exports (moduleObjs s3 (fst (registerModule s modulePath)))), s3))"
  using assms by (simp add: requireModule_def requireModule_body_def split_beta)

lemma registerModule_preallocates:
  "moduleRegistry (snd (registerModule s modulePath)) modulePath
     = Some (fst (registerModule s modulePath))
   \<and> mo_filename (moduleObjs (snd (registerModule s modulePath))
        (fst (registerModule s modulePath))) = modulePath
   \<and> contents (snd (registerModule s modulePath))
        (mo_exports (moduleObjs (snd (registerModule s modulePath))
           (fst (registerModule s modulePath)))) = Some []"
  by (simp add: registerModule_def newModuleObj_def contents_def Let_def)

text \<open>
  C1, as amended. Under one pair of registries \<open>requireModule\<close> calls \<open>_execModule\<close>
  for a path at most once: whatever the loader is asked for, by whichever of its
  four methods, no path is added twice to the log of these calls under the same
  registries, and every path logged under the current registries stays registered.
  A request whose path is registered returns the registered record's exports as they
  are and changes nothing; a request whose path is not registered registers a new
  record with empty exports and only then calls \<open>_execModule\<close>, on the state that
  holds the record.
\<close>

theorem real_registry_evaluates_once:
  "(registry_inv s
      \<and> run \<in> {requireModuleOrMock n w, requireModule n w, requireMock n w, generateMock n w}
      \<and> run s currPath moduleName = Some (r, s')
     \<longrightarrow> registry_inv s' \<and> distinct (real_log s')
         \<and> (\<forall>p. (generation s', p) \<in> set (real_log s') \<longrightarrow> moduleRegistry s' p \<noteq> None))
   \<and> (requireModule_path w s currPath moduleName = Some (Inr (Inr modulePath))
      \<and> moduleRegistry s modulePath = Some m
     \<longrightarrow> requireModule (Suc n) w s currPath moduleName
           = Some (Inr (mo_exports (moduleObjs s m)), s))
   \<and> (requireModule_path w s currPath moduleName = Some (Inr (Inr modulePath))
      \<and> moduleRegistry s modulePath = None
      \<and> path_extname w modulePath \<noteq> ''.json'' \<and> path_extname w modulePath \<noteq> ''.node''
     \<longrightarrow> moduleRegistry (snd (registerModule s modulePath)) modulePath
           = Some (fst (registerModule s modulePath))
         \<and> contents (snd (registerModule s modulePath))
             (mo_exports (moduleObjs (snd (registerModule s modulePath))
                (fst (registerModule s modulePath)))) = Some []
         \<and> requireModule (Suc n) w s currPath moduleName
           = (case execModule (loader n w) w
                     (logExecution ByRequireModule (snd (registerModule s modulePath)) modulePath)
                     (fst (registerModule s modulePath)) of
                None \<Rightarrow> None
              | Some (Inl e, s3) \<Rightarrow> Some (Inl e, s3)
              | Some (Inr u, s3) \<Rightarrow>
                  Some (Inr (mo_exports (moduleObjs s3 (fst (registerModule s modulePath)))),
                        s3)))"
proof (intro conjI impI)
  assume a: "registry_inv s
      \<and> run \<in> {requireModuleOrMock n w, requireModule n w, requireMock n w, generateMock n w}
      \<and> run s currPath moduleName = Some (r, s')"
  have "ops_sat keeps (loader n w)" by (rule loader_sat [OF stepwise_keeps])
  with a have "keeps s (isl r) s'"
    by (auto simp: ops_sat_def requireModuleOrMock_def requireModule_def requireMock_def
          generateMock_def)
  with a show i: "registry_inv s'" by (simp add: keeps_def)
  then show "distinct (real_log s')"
    and "\<forall>p. (generation s', p) \<in> set (real_log s') \<longrightarrow> moduleRegistry s' p \<noteq> None"
    by (simp_all add: registry_inv_def)
next
  assume "requireModule_path w s currPath moduleName = Some (Inr (Inr modulePath))
      \<and> moduleRegistry s modulePath = Some m"
  then show "requireModule (Suc n) w s currPath moduleName
           = Some (Inr (mo_exports (moduleObjs s m)), s)"
    by (simp add: registry_hit)
next
  assume b: "requireModule_path w s currPath moduleName = Some (Inr (Inr modulePath))
      \<and> moduleRegistry s modulePath = None
      \<and> path_extname w modulePath \<noteq> ''.json'' \<and> path_extname w modulePath \<noteq> ''.node''"
  show "moduleRegistry (snd (registerModule s modulePath)) modulePath
           = Some (fst (registerModule s modulePath))"
    and "contents (snd (registerModule s modulePath))
             (mo_exports (moduleObjs (snd (registerModule s modulePath))
                (fst (registerModule s modulePath)))) = Some []"
    using registerModule_preallocates [of s modulePath] by simp_all
  from b show "requireModule (Suc n) w s currPath moduleName
           = (case execModule (loader n w) w
                     (logExecution ByRequireModule (snd (registerModule s modulePath)) modulePath)
                     (fst (registerModule s modulePath)) of
                None \<Rightarrow> None
              | Some (Inl e, s3) \<Rightarrow> Some (Inl e, s3)
              | Some (Inr u, s3) \<Rightarrow>
                  Some (Inr (mo_exports (moduleObjs s3 (fst (registerModule s modulePath)))),
                        s3))"
    by (simp add: registry_miss)
qed

theorem real_registry_evaluates_once_witness:
  "registry_inv ex_state
   \<and> outcome_of (requireModule 5 cycle_world ex_state ''/p/t.js'' ''A'') = Some (Inr (ObjRef 0))
   \<and> log_of (requireModule 5 cycle_world ex_state ''/p/t.js'' ''A'')
       = [(ByRequireModule, 0, ''/p/A.js''), (ByRequireModule, 0, ''/p/B.js'')]
   \<and> exports_of (requireModule 5 cycle_world ex_state ''/p/t.js'' ''A'')
       = Some [(''a1'', Prim 1), (''a2'', Prim 2)]
   \<and> holds_after (requireModule 5 cycle_world ex_state ''/p/t.js'' ''A'') registry_inv
   \<and> requireModule_path cycle_world ex_state ''/p/t.js'' ''A'' = Some (Inr (Inr ''/p/A.js''))
   \<and> moduleRegistry ex_state ''/p/A.js'' = None
   \<and> path_extname cycle_world ''/p/A.js'' = ''.js''
   \<and> moduleRegistry a_registered ''/p/A.js'' = Some 1
   \<and> contents a_registered (mo_exports (moduleObjs a_registered 1)) = Some []
   \<and> requireModule_path cycle_world a_registered ''/p/B.js'' ''A'' = Some (Inr (Inr ''/p/A.js''))
   \<and> requireModule 1 cycle_world a_registered ''/p/B.js'' ''A''
       = Some (Inr (ObjRef 0), a_registered)"
proof -
  let ?run = "requireModule 5 cycle_world ex_state ''/p/t.js'' ''A''"
  have i: "registry_inv ex_state"
    by (simp add: registry_inv_def real_log_def ex_state_def)
  have o: "outcome_of ?run = Some (Inr (ObjRef 0))"
    "log_of ?run = [(ByRequireModule, 0, ''/p/A.js''), (ByRequireModule, 0, ''/p/B.js'')]"
    "exports_of ?run = Some [(''a1'', Prim 1), (''a2'', Prim 2)]"
    by code_simp+
  from o(1) obtain s' where run: "?run = Some (Inr (ObjRef 0), s')"
    by (cases ?run) (auto simp: outcome_of_def)
  have "registry_inv s'"
    using real_registry_evaluates_once
      [where s = ex_state and run = "requireModule 5 cycle_world" and n = 5
         and w = cycle_world and currPath = "''/p/t.js''" and moduleName = "''A''"
         and r = "Inr (ObjRef 0)" and s' = s']
      i run
    by simp
  with run have h: "holds_after ?run registry_inv" by (simp add: holds_after_def)
  have m: "requireModule_path cycle_world ex_state ''/p/t.js'' ''A'' = Some (Inr (Inr ''/p/A.js''))"
    "moduleRegistry ex_state ''/p/A.js'' = None"
    "path_extname cycle_world ''/p/A.js'' = ''.js''"
    by (simp_all add: requireModule_path_def cycle_world_def ex_state_def ex_simps)
  have f: "fst (registerModule ex_state ''/p/A.js'') = 1"
    by (simp add: registerModule_def newModuleObj_def ex_state_def Let_def)
  have pre: "moduleRegistry a_registered ''/p/A.js'' = Some 1"
    "contents a_registered (mo_exports (moduleObjs a_registered 1)) = Some []"
    using real_registry_evaluates_once
      [where s = ex_state and w = cycle_world and currPath = "''/p/t.js''"
         and moduleName = "''A''" and modulePath = "''/p/A.js''" and n = 0]
      m f
    by (simp_all add: a_registered_def)
  have p: "requireModule_path cycle_world a_registered ''/p/B.js'' ''A''
             = Some (Inr (Inr ''/p/A.js''))"
    "mo_exports (moduleObjs a_registered 1) = ObjRef 0"
    by (simp_all add: requireModule_path_def cycle_world_def a_registered_def
          registerModule_def newModuleObj_def ex_state_def ex_simps)
  have hit: "requireModule 1 cycle_world a_registered ''/p/B.js'' ''A''
               = Some (Inr (ObjRef 0), a_registered)"
    using real_registry_evaluates_once
      [where s = a_registered and w = cycle_world and currPath = "''/p/B.js''"
         and moduleName = "''A''" and modulePath = "''/p/A.js''" and m = 1 and n = 0]
      p pre
    by simp
  from i o h m pre p hit show ?thesis by simp
qed

text \<open>
  C1 as stated fails. The module \<open>Test\<close> asks for the mock of \<open>X\<close> and then for the
  actual \<open>X\<close>; \<open>X\<close> has a manual mock and no real file. The file of the manual mock
  is executed twice under the same registries: once for \<open>requireMock\<close>, which keeps
  its exports in the mock registry, and once for \<open>requireModule\<close>.
\<close>

theorem executor_counterexample:
  "outcome_of (requireModule 4 mockonly_world ex_state ''/p/other.js'' ''Test'')
     = Some (Inr (ObjRef 0))
   \<and> log_of (requireModule 4 mockonly_world ex_state ''/p/other.js'' ''Test'')
     = [(ByRequireModule, 0, ''/p/Test.js''), (ByRequireMock, 0, ''/p/__mocks__/X.js''),
        (ByRequireModule, 0, ''/p/__mocks__/X.js'')]"
  by code_simp

subsection \<open>The executing module across \<open>_execModule\<close>\<close>

lemma shouldMock_same_executing:
  "shouldMock w s currPath moduleName = Some (r, s') \<Longrightarrow> same_executing s s'"
  by (auto simp: shouldMock_def same_executing_def Let_def
        split: option.splits sum.splits if_splits)

lemma setExplicitShouldMock_same_executing:
  "setExplicitShouldMock w s currPath moduleName b = Some (r, s') \<Longrightarrow> same_executing s s'"
  by (auto simp: setExplicitShouldMock_def same_executing_def split: option.splits sum.splits)

lemma jest_setMock_same_executing:
  "jest_setMock w s currPath moduleName v = Some (r, s') \<Longrightarrow> same_executing s s'"
  by (auto simp: jest_setMock_def same_executing_def split: option.splits sum.splits)

lemma same_executing_steps:
  "same_executing s s"
  "same_executing s (jest_autoMockOff s)"
  "same_executing s (jest_autoMockOn s)"
  "same_executing s (resetModuleRegistry s)"
  "same_executing s (setProp s a k v)"
  "same_executing s (assignExports s m ps)"
  "same_executing s (s\<lparr>coverageCollectors := cc\<rparr>)"
  "same_executing s (snd (registerModule s modulePath))"
  "same_executing s (setExports s m v)"
  "same_executing s (logExecution c (snd (registerModule s modulePath)) modulePath)"
  "same_executing s (logExecution c (snd (newModuleObj s modulePath)) modulePath)"
  "same_executing s (setMockRegistry s modulePath v)"
  "same_executing s (snd (newObject s ps))"
  "same_executing s (setMockMetaData s modulePath md)"
  "same_executing s (isolateRegistries s)"
  by (simp_all add: same_executing_def jest_autoMockOff_def jest_autoMockOn_def
        resetModuleRegistry_def setProp_def assignExports_def
        registerModule_def setExports_def logExecution_def newModuleObj_def
        setMockRegistry_def newObject_def setMockMetaData_def isolateRegistries_def
        Let_def split: option.splits)

lemma collectCoverageFor_same_executing:
  "same_executing s (snd (collectCoverageFor w s filename moduleContent))"
  using collectCoverageFor_state [of w s filename moduleContent]
  by (auto simp: same_executing_def)

lemma same_executing_restores: "same_executing s s' \<Longrightarrow> restores s b s'"
  by (simp add: restores_def)

lemma stepwise_restores: "stepwise restores"
  unfolding stepwise_def
proof (intro conjI allI impI)
  fix s s1 s2 :: state and b :: bool
  assume "restores s False s1" "restores s1 b s2"
  then show "restores s b s2" by (auto simp: restores_def same_executing_def)
next
  fix s :: state and m f
  show "restores s True (enterModule s m f)"
    by (auto simp: restores_def executing_def enterModule_def)
next
  fix s s3 :: state and m f
  assume "restores (enterModule s m f) True s3"
  then show "restores s True s3"
    by (auto simp: restores_def executing_def same_executing_def enterModule_def)
next
  fix s s3 :: state and m f
  assume "restores (enterModule s m f) False s3"
  show "restores s False (leaveModule s3 (currentlyExecutingModulePath s)
                           (isCurrentlyExecutingManualMock s))"
    by (simp add: restores_def same_executing_def leaveModule_def)
next
  fix s s2 :: state
  assume "restores (isolateRegistries s) True s2"
  then show "restores s True s2"
    by (auto simp: restores_def same_executing_def isolateRegistries_def)
next
  fix s s2 :: state and b :: bool
  assume "restores (isolateRegistries s) False s2"
  then show "restores s b (restoreRegistries s s2)"
    by (auto simp: restores_def same_executing_def isolateRegistries_def restoreRegistries_def)
qed (auto intro: same_executing_restores shouldMock_same_executing
       setExplicitShouldMock_same_executing jest_setMock_same_executing same_executing_steps
       collectCoverageFor_same_executing)

text \<open>
  C2, as amended. A call of \<open>_execModule\<close> that returns leaves the previously
  executing module path and manual-mock flag as they were before the call. When the
  transformer throws, the call has changed nothing. When the preparation of the
  coverage collection throws (after the transformer, before the two fields are set),
  the two fields are as they were before the call. When the evaluation of the
  source or the module's top-level code throws, the exception propagates with the
  two fields not restored: both name a file (that of the module whose execution
  was interrupted; the file of the call when it is the evaluation of its source that
  throws).
\<close>

theorem execModule_restores:
  assumes "execModule (loader n w) w s m = Some (r, s')"
  shows "(\<not> isl r \<longrightarrow> same_executing s s')
       \<and> (isl r \<longrightarrow>
            (case transform w (mo_filename (moduleObjs s m)) of
               None \<Rightarrow> s' = s
             | Some content \<Rightarrow>
                (case collectCoverageFor w s (mo_filename (moduleObjs s m)) content of
                   (Inl e, s1) \<Rightarrow> r = Inl e \<and> s' = s1 \<and> same_executing s s'
                 | (Inr moduleContent, s1) \<Rightarrow>
                    (case runSourceText w (wrapper_text moduleContent)
                            (mo_filename (moduleObjs s m)) of
                       None \<Rightarrow>
                         s' = enterModule s1 m (mo_filename (moduleObjs s m))
                         \<and> executing (mo_filename (moduleObjs s m)) s'
                     | Some wrapperFunc \<Rightarrow> (\<exists>f. executing f s')))))"
proof (cases "environment_global s")
  case None
  with assms show ?thesis by (auto simp: execModule_def same_executing_def)
next
  case env: (Some g)
  let ?f = "mo_filename (moduleObjs s m)"
  show ?thesis
  proof (cases "transform w ?f")
    case None
    with env assms show ?thesis by (auto simp: execModule_def Let_def)
  next
    case (Some content)
    obtain c1 s1 where c: "collectCoverageFor w s ?f content = (c1, s1)"
      by (cases "collectCoverageFor w s ?f content")
    have e1: "same_executing s s1"
      using collectCoverageFor_same_executing [of s w ?f content] c by simp
    show ?thesis
    proof (cases c1)
      case (Inl e)
      with env Some c assms have "r = Inl e" "s' = s1"
        by (auto simp: execModule_def Let_def)
      with Some c Inl e1 show ?thesis by simp
    next
      case cov: (Inr moduleContent)
      show ?thesis
      proof (cases "runSourceText w (wrapper_text moduleContent) ?f")
        case None
        with env Some c cov assms have "isl r" "s' = enterModule s1 m ?f"
          by (auto simp: execModule_def Let_def)
        with Some c cov None show ?thesis by (auto simp: executing_def enterModule_def)
      next
        case body: (Some wrapperFunc)
        show ?thesis
        proof (cases "exec_cmds (loader n w) w m (mo_exports (moduleObjs (enterModule s1 m ?f) m))
                        ?f (enterModule s1 m ?f) wrapperFunc")
          case None
          with env Some c cov body assms show ?thesis by (simp add: execModule_def Let_def)
        next
          case run: (Some out)
          obtain r3 s3 where out: "out = (r3, s3)" by (cases out)
          from run out have g3: "restores (enterModule s1 m ?f) (isl r3) s3"
            using exec_cmds_sat [OF stepwise_restores loader_sat [OF stepwise_restores]] by simp
          show ?thesis
          proof (cases r3)
            case (Inl e)
            with env Some c cov body run out assms have "r = Inl e" "s' = s3"
              by (auto simp: execModule_def Let_def)
            with g3 Inl Some c cov body show ?thesis
              by (auto simp: restores_def same_executing_def executing_def enterModule_def)
          next
            case (Inr u)
            with env Some c cov body run out assms have "r = Inr ()"
              "s' = leaveModule s3 (currentlyExecutingModulePath s1)
                      (isCurrentlyExecutingManualMock s1)"
              by (auto simp: execModule_def Let_def)
            with e1 show ?thesis by (simp add: same_executing_def leaveModule_def)
          qed
        qed
      qed
    qed
  qed
qed

theorem execModule_restores_witness:
  "outcome_of (execModule (loader 3 cycle_world) cycle_world a_start 1) = Some (Inr ())
   \<and> holds_after (execModule (loader 3 cycle_world) cycle_world a_start 1)
        (same_executing a_start)
   \<and> outcome_of (execModule (loader 0 cycle_world) cycle_world bad_start 1)
        = Some (Inl (UserError ''boom''))
   \<and> transform cycle_world (mo_filename (moduleObjs bad_start 1)) = Some ''/p/Bad.js''
   \<and> collectCoverageFor cycle_world bad_start ''/p/Bad.js'' ''/p/Bad.js''
        = (Inr ''/p/Bad.js'', bad_start)
   \<and> holds_after (execModule (loader 0 cycle_world) cycle_world bad_start 1)
        (executing ''/p/Bad.js'')
   \<and> transform coverage_world (mo_filename (moduleObjs a_start 1)) = Some ''/p/A.js''
   \<and> collectCoverageFor coverage_world a_start ''/p/A.js'' ''/p/A.js'' = (Inl TypeError, a_start)
   \<and> execModule (loader 3 coverage_world) coverage_world a_start 1
        = Some (Inl TypeError, a_start)
   \<and> transform cycle_world (mo_filename (moduleObjs gone_start 1)) = None
   \<and> execModule (loader 3 cycle_world) cycle_world gone_start 1
        = Some (Inl (TransformError ''/p/gone.js''), gone_start)
   \<and> runSourceText broken_world (wrapper_text ''/p/A.js'') ''/p/A.js'' = None
   \<and> execModule (loader 3 broken_world) broken_world a_start 1
        = Some (Inl (EvaluationError ''/p/A.js''), enterModule a_start 1 ''/p/A.js'')
   \<and> executing ''/p/A.js'' (enterModule a_start 1 ''/p/A.js'')"
proof -
  let ?A = "execModule (loader 3 cycle_world) cycle_world a_start 1"
  let ?B = "execModule (loader 0 cycle_world) cycle_world bad_start 1"
  let ?C = "execModule (loader 3 coverage_world) coverage_world a_start 1"
  let ?D = "execModule (loader 3 cycle_world) cycle_world gone_start 1"
  let ?E = "execModule (loader 3 broken_world) broken_world a_start 1"
  have a: "outcome_of ?A = Some (Inr ())" by code_simp
  have f: "mo_filename (moduleObjs bad_start 1) = ''/p/Bad.js''"
    "mo_filename (moduleObjs a_start 1) = ''/p/A.js''"
    by code_simp+
  have b: "outcome_of ?B = Some (Inl (UserError ''boom''))"
    "executing_of ?B = Some (''/p/Bad.js'', Some ''/p/Bad.js'')"
    "transform cycle_world (mo_filename (moduleObjs bad_start 1)) = Some ''/p/Bad.js''"
    by code_simp+
  have b': "collectCoverageFor cycle_world bad_start ''/p/Bad.js'' ''/p/Bad.js''
              = (Inr ''/p/Bad.js'', bad_start)"
    by (simp add: collectCoverageFor_def shouldCollectCoverage_def cycle_world_def ex_world_def)
  have c: "transform coverage_world (mo_filename (moduleObjs a_start 1)) = Some ''/p/A.js''"
    "collectCoverageFor coverage_world a_start ''/p/A.js'' ''/p/A.js'' = (Inl TypeError, a_start)"
    by (simp_all add: collectCoverageFor_def shouldCollectCoverage_def newCollector_def
          coverage_world_def cycle_world_def ex_world_def a_start_def newModuleObj_def
          ex_state_def Let_def)
  have c': "outcome_of ?C = Some (Inl TypeError)" by code_simp
  have d: "transform cycle_world (mo_filename (moduleObjs gone_start 1)) = None"
    by code_simp
  have d': "outcome_of ?D = Some (Inl (TransformError ''/p/gone.js''))" by code_simp
  from a obtain sa where A: "?A = Some (Inr (), sa)"
    by (cases ?A) (auto simp: outcome_of_def)
  from b(1) obtain sb where B: "?B = Some (Inl (UserError ''boom''), sb)"
    by (cases ?B) (auto simp: outcome_of_def)
  from c' obtain sc where C: "?C = Some (Inl TypeError, sc)"
    by (cases ?C) (auto simp: outcome_of_def)
  from d' obtain sd where D: "?D = Some (Inl (TransformError ''/p/gone.js''), sd)"
    by (cases ?D) (auto simp: outcome_of_def)
  from execModule_restores [OF A] have "same_executing a_start sa" by simp
  with A have ra: "holds_after ?A (same_executing a_start)" by (simp add: holds_after_def)
  have bw: "runSourceText cycle_world (wrapper_text ''/p/Bad.js'') ''/p/Bad.js''
              = Some [ThrowError ''boom'']"
    by (simp add: cycle_world_def ex_world_def)
  have e: "transform broken_world ''/p/A.js'' = Some ''/p/A.js''"
    "collectCoverageFor broken_world a_start ''/p/A.js'' ''/p/A.js'' = (Inr ''/p/A.js'', a_start)"
    "runSourceText broken_world (wrapper_text ''/p/A.js'') ''/p/A.js'' = None"
    by (simp_all add: collectCoverageFor_def shouldCollectCoverage_def broken_world_def
          cycle_world_def ex_world_def)
  have e': "outcome_of ?E = Some (Inl (EvaluationError ''/p/A.js''))" by code_simp
  from e' obtain se where E: "?E = Some (Inl (EvaluationError ''/p/A.js''), se)"
    by (cases ?E) (auto simp: outcome_of_def)
  from execModule_restores [OF E] e f(2)
  have se: "se = enterModule a_start 1 ''/p/A.js''" and "executing ''/p/A.js'' se" by auto
  then have "executing ''/p/A.js'' (enterModule a_start 1 ''/p/A.js'')" by simp
  with E se have re:
    "?E = Some (Inl (EvaluationError ''/p/A.js''), enterModule a_start 1 ''/p/A.js'')"
    "executing ''/p/A.js'' (enterModule a_start 1 ''/p/A.js'')" by simp_all
  from execModule_restores [OF B] b(3) b' f(1) bw obtain g where "executing g sb" by auto
  with b(2) B have "executing ''/p/Bad.js'' sb"
    by (simp add: executing_of_def executing_def)
  with B have rb: "holds_after ?B (executing ''/p/Bad.js'')" by (simp add: holds_after_def)
  from execModule_restores [OF C] c f(2) have "sc = a_start" by simp
  with C have rc: "?C = Some (Inl TypeError, a_start)" by simp
  from execModule_restores [OF D] d have "sd = gone_start" by simp
  with D have rd: "?D = Some (Inl (TransformError ''/p/gone.js''), gone_start)" by simp
  from a b b' c d e(3) ra rb rc rd re show ?thesis by simp
qed

text \<open>
  C2 as stated fails. No module is executing; \<open>_execModule\<close> runs the file whose top
  level throws; the exception propagates and both fields still name that file.
\<close>

theorem execModule_counterexample:
  "currentlyExecutingModulePath bad_start = []
   \<and> isCurrentlyExecutingManualMock bad_start = None
   \<and> outcome_of (execModule (loader 0 cycle_world) cycle_world bad_start 1)
       = Some (Inl (UserError ''boom''))
   \<and> executing_of (execModule (loader 0 cycle_world) cycle_world bad_start 1)
       = Some (''/p/Bad.js'', Some ''/p/Bad.js'')"
  by code_simp

subsection \<open>\<open>require.requireActual\<close>\<close>















end
